theory Spec2Isabelle
  imports Complex_Main
begin

section \<open>Data model of the distance solver (miniapps/shiftedBC/distfunction.cpp)\<close>

text \<open>
  The program is an SPMD code: every MPI rank runs the same statements on its own part of
  the mesh. The model takes the global view: each distributed quantity is a list with one
  entry per rank, and a collective reduction reads all entries.

  A \<open>double\<close> is modelled as a \<open>real\<close>: rounding, NaN and the infinities are not part
  of the model. The C \<open>int\<close>s of the program (\<open>order\<close>, \<open>smooth_steps\<close>, the cell
  count) are only compared, added up over the cells or converted to \<open>double\<close>; they are
  modelled as \<open>int\<close>.
\<close>

type_synonym Vector = "real list"

text \<open>A \<open>ParGridFunction\<close>: the local vector of nodal values of every rank.\<close>
type_synonym ParGridFunction = "Vector list"

text \<open>An \<open>Array<int>\<close> of true degrees of freedom on every rank.\<close>
type_synonym DofLists = "int list list"

text \<open>
  The reference-cell tags the constructor switches on, and every other value of
  \<open>Geometry::Type\<close> (the enumeration itself is declared outside this file).
\<close>
datatype Geometry = SEGMENT | SQUARE | TRIANGLE | CUBE | TETRAHEDRON | OtherGeometry int

text \<open>\<open>MFEM_ABORT\<close> and \<open>mfem_error\<close> print their message and terminate the program.\<close>
datatype error = Abort string

text \<open>The two preconditioners \<open>GetPrecondtioner\<close> can build.\<close>
datatype Solver = AmgXSolver | HypreBoomerAMG

text \<open>
  What the constructor reads from the \<open>ParMesh\<close>: the cell measures of every rank
  (\<open>GetNE\<close> is the length of a rank's list, \<open>GetElementVolume(i)\<close> its \<open>i\<close>-th entry), the
  result of \<open>GetElementBaseGeometry(0)\<close>, and \<open>bdr_attributes\<close>.
\<close>
record ParMesh =
  ElementVolumes :: "real list list"
  ElementBaseGeometry :: Geometry
  bdr_attributes :: "int list"

text \<open>
  What the program reads from the \<open>ParFiniteElementSpace\<close>: the size of a grid function
  on every rank, and \<open>GetEssentialTrueDofs\<close> (from a marker array to the true dofs on
  the marked boundary, per rank).
\<close>
record ParFiniteElementSpace =
  GetVSize :: "nat list"
  GetEssentialTrueDofs :: "int list \<Rightarrow> DofLists"

text \<open>
  The bilinear forms and linear forms the program assembles: mass plus diffusion with
  coefficient \<open>dt\<close> (\<open>a1\<close>, \<open>a_n\<close>), diffusion alone (\<open>a2\<close>); the domain integral of the
  source (\<open>b1\<close>) and of the normalised gradient of the diffused source (\<open>b2\<close>).
\<close>
datatype BilinearForm = MassDiffusionForm real | DiffusionForm
datatype LinearForm = DomainLF ParGridFunction | DomainLFGrad ParGridFunction

text \<open>
  The finite-element library is not part of this file; it is a parameter of the model. A
  field it computes is given by its nodal values, rank by rank.
  \<^item> \<open>H1_Space\<close>: the space \<open>pfes(&pmesh, &fec)\<close> of a given order on a mesh;
  \<^item> \<open>Uninitialized\<close>: the content of a freshly allocated grid function;
  \<^item> \<open>ProjectCoefficient\<close>: the nodal values of the projected coefficient;
  \<^item> \<open>HypreSmoother_Mult\<close>: the true-dof vector after the given number of sweeps of the
    smoother of type 0 on the Laplacian, started from the field, with a zero right-hand side;
  \<^item> \<open>LinearSolve\<close>: modelled from the spec: the Linear System Solver, which "given an
    operator, a right-hand side, and a set of constrained degrees of freedom, produces a
    solution" (\<open>FormLinearSystem\<close>, the preconditioned \<open>cg.Mult\<close> and \<open>RecoverFEMSolution\<close>).
\<close>
record 'c Library =
  H1_Space :: "ParMesh \<Rightarrow> int \<Rightarrow> ParFiniteElementSpace"
  Uninitialized :: "nat \<Rightarrow> nat \<Rightarrow> real"
  ProjectCoefficient :: "ParFiniteElementSpace \<Rightarrow> 'c \<Rightarrow> nat \<Rightarrow> nat \<Rightarrow> real"
  HypreSmoother_Mult :: "ParFiniteElementSpace \<Rightarrow> int \<Rightarrow> ParGridFunction \<Rightarrow> nat \<Rightarrow> nat \<Rightarrow> real"
  LinearSolve :: "ParFiniteElementSpace \<Rightarrow> Solver \<Rightarrow> BilinearForm \<Rightarrow> LinearForm \<Rightarrow> DofLists
                    \<Rightarrow> nat \<Rightarrow> nat \<Rightarrow> real"

text \<open>The members of \<open>DistanceFunction\<close>.\<close>
record DistanceFunction =
  pfes :: ParFiniteElementSpace
  distance :: ParGridFunction
  source :: ParGridFunction
  diffused_source :: ParGridFunction
  t_param :: real
  use_amgx :: bool
  dx :: real
  ess_tdof_list :: DofLists

text \<open>
  The calls into the library that the claims speak about, in the order the program makes
  them: a run of the smoother, the formation of a constrained linear system (with the
  constraint set it is given), a conjugate-gradient solve.
\<close>
datatype event = Smoother_Mult int | FormLinearSystem BilinearForm DofLists | CG_Mult Solver

section \<open>Helpers of the library\<close>

text \<open>
  A grid function allocated on the space \<open>fes\<close> (\<open>ParGridFunction u(&pfes)\<close>) and filled
  with the nodal values \<open>f rank i\<close>.
\<close>
definition GridFunction :: "ParFiniteElementSpace \<Rightarrow> (nat \<Rightarrow> nat \<Rightarrow> real) \<Rightarrow> ParGridFunction" where
  "GridFunction fes f = map (\<lambda>r. map (f r) [0..<GetVSize fes ! r]) [0..<length (GetVSize fes)]"

text \<open>A default-constructed (empty) \<open>Array<int>\<close> on every rank.\<close>
definition no_dofs :: "ParFiniteElementSpace \<Rightarrow> DofLists" where
  "no_dofs fes = map (\<lambda>_. []) (GetVSize fes)"

text \<open>
  Modelled from the spec: \<open>MPI_Allreduce\<close> is not part of this file; with \<open>MPI_SUM\<close> it
  is the "total domain measure (summed locally, reduced globally via sum)". Every rank
  contributes one value.
\<close>
definition MPI_Allreduce_SUM :: "real list \<Rightarrow> real" where
  "MPI_Allreduce_SUM contributions = fold (\<lambda>x acc. acc + x) contributions 0"

text \<open>
  Modelled from the spec: \<open>Vector::Min\<close> and \<open>MPI_Allreduce\<close> are not part of this file;
  together they are the "global-minimum reduction across all partitions". The minimum of
  an empty local vector is \<open>+infinity\<close>, for which \<open>None\<close> stands; \<open>min_inf\<close> is the
  minimum of two such values.
\<close>
definition Vector_Min :: "Vector \<Rightarrow> real option" where
  "Vector_Min v = (case v of [] \<Rightarrow> None | x # xs \<Rightarrow> Some (fold min xs x))"

fun min_inf :: "real option \<Rightarrow> real option \<Rightarrow> real option" where
  "min_inf None b = b"
| "min_inf a None = a"
| "min_inf (Some x) (Some y) = Some (min x y)"

definition MPI_Allreduce_MIN :: "real option list \<Rightarrow> real option" where
  "MPI_Allreduce_MIN contributions = fold min_inf contributions None"

text \<open>
  Modelled from the spec: \<open>ParMesh::GetGlobalNE\<close> is not part of this file; it is the
  "global cell count", the number of cells of all ranks together.
\<close>
definition GetGlobalNE :: "ParMesh \<Rightarrow> int" where
  "GetGlobalNE pmesh = int (sum_list (map length (ElementVolumes pmesh)))"

section \<open>The constructor\<close>

text \<open>The loop \<open>for (i = 0; i < pmesh.GetNE(); i++) loc_area += pmesh.GetElementVolume(i)\<close>.\<close>
function area_loop :: "real list \<Rightarrow> nat \<Rightarrow> real \<Rightarrow> real" where
  "area_loop vols i loc_area =
     (if i < length vols then area_loop vols (Suc i) (loc_area + vols ! i) else loc_area)"
  by pat_completeness auto
termination
  by (relation "measure (\<lambda>(vols, i, loc_area). length vols - i)") auto

text \<open>
  The \<open>switch\<close> on the base geometry: the mesh size before the division by the order, or
  the abort of the \<open>default\<close> branch.
\<close>
fun mesh_size :: "Geometry \<Rightarrow> real \<Rightarrow> int \<Rightarrow> error + real" where
  "mesh_size SEGMENT glob_area glob_zones = Inr (glob_area / real_of_int glob_zones)"
| "mesh_size SQUARE glob_area glob_zones = Inr (sqrt (glob_area / real_of_int glob_zones))"
| "mesh_size TRIANGLE glob_area glob_zones = Inr (sqrt (2 * glob_area / real_of_int glob_zones))"
| "mesh_size CUBE glob_area glob_zones = Inr ((glob_area / real_of_int glob_zones) powr (1 / 3))"
| "mesh_size TETRAHEDRON glob_area glob_zones =
     Inr ((6 * glob_area / real_of_int glob_zones) powr (1 / 3))"
| "mesh_size (OtherGeometry t) glob_area glob_zones = Inl (Abort ''Unknown zone type!'')"

text \<open>
  \<open>DistanceFunction::DistanceFunction\<close>. The member initialisers allocate the three grid
  functions on \<open>pfes\<close>; the body computes \<open>dx\<close> and the list of essential true dofs. An
  abort in the body leaves no object.
\<close>
definition DistanceFunction_new ::
  "'c Library \<Rightarrow> ParMesh \<Rightarrow> int \<Rightarrow> real \<Rightarrow> bool \<Rightarrow> error + DistanceFunction" where
  "DistanceFunction_new env pmesh order diff_coeff use_amgx0 =
     (let fes = H1_Space env pmesh order;
          loc_area = map (\<lambda>vols. area_loop vols 0 0) (ElementVolumes pmesh);
          glob_area = MPI_Allreduce_SUM loc_area;
          glob_zones = GetGlobalNE pmesh
      in case mesh_size (ElementBaseGeometry pmesh) glob_area glob_zones of
           Inl e \<Rightarrow> Inl e
         | Inr dx0 \<Rightarrow>
             Inr \<lparr> pfes = fes,
                   distance = GridFunction fes (Uninitialized env),
                   source = GridFunction fes (Uninitialized env),
                   diffused_source = GridFunction fes (Uninitialized env),
                   t_param = diff_coeff,
                   use_amgx = use_amgx0,
                   dx = dx0 / real_of_int order,
                   ess_tdof_list =
                     (if bdr_attributes pmesh \<noteq> []
                      then GetEssentialTrueDofs fes
                             (replicate (nat (Max (set (bdr_attributes pmesh)))) 1)
                      else no_dofs fes) \<rparr>)"

section \<open>Smoothing and preconditioner selection\<close>

text \<open>
  \<open>DiffuseField\<close>: assemble the Laplacian, run \<open>smooth_steps\<close> sweeps of the smoother on
  the true-dof vector of the field, write the result back into the field.
\<close>
definition DiffuseField ::
  "'c Library \<Rightarrow> ParFiniteElementSpace \<Rightarrow> ParGridFunction \<Rightarrow> int \<Rightarrow> event list \<times> ParGridFunction" where
  "DiffuseField env fes field smooth_steps =
     ([Smoother_Mult smooth_steps],
      GridFunction fes (HypreSmoother_Mult env fes smooth_steps field))"

text \<open>
  \<open>GetPrecondtioner\<close>. The first argument is the build option \<open>MFEM_USE_AMGX\<close>, which
  selects one of the two bodies at compile time.
\<close>
definition GetPrecondtioner :: "bool \<Rightarrow> bool \<Rightarrow> error + Solver" where
  "GetPrecondtioner MFEM_USE_AMGX use_amgx0 =
     (if MFEM_USE_AMGX
      then (if use_amgx0 then Inr AmgXSolver else Inr HypreBoomerAMG)
      else (if use_amgx0 then Inl (Abort ''AMGX not enabled \<newline>'') else Inr HypreBoomerAMG))"

section \<open>ComputeDistance\<close>

text \<open>The peak transform of one nodal value (the right-hand side of the assignment).\<close>
definition peak :: "real \<Rightarrow> real" where
  "peak x = (if x < 0 \<or> x > 1 then 0 else 4 * x * (1 - x))"

text \<open>The loop \<open>for (i = 0; i < source.Size(); i++) source(i) = ...\<close> on one rank.\<close>
function transform_loop :: "nat \<Rightarrow> Vector \<Rightarrow> Vector" where
  "transform_loop i src =
     (if i < length src then transform_loop (Suc i) (src[i := peak (src ! i)]) else src)"
  by pat_completeness auto
termination
  by (relation "measure (\<lambda>(i, src). length src - i)") auto

text \<open>
  The loop \<open>for (i = 0; i < diffused_source.Size(); i++)
  diffused_source(i) = 0.5 * (u_neumann(i) + u_dirichlet(i))\<close> on one rank.
\<close>
function average_loop :: "nat \<Rightarrow> Vector \<Rightarrow> Vector \<Rightarrow> Vector \<Rightarrow> Vector" where
  "average_loop i diffused u_neumann u_dirichlet =
     (if i < length diffused
      then average_loop (Suc i) (diffused[i := 0.5 * (u_neumann ! i + u_dirichlet ! i)])
             u_neumann u_dirichlet
      else diffused)"
  by pat_completeness auto
termination
  by (relation "measure (\<lambda>(i, diffused, u_neumann, u_dirichlet). length diffused - i)") auto

text \<open>
  The sequence the program runs for each of its three linear systems:
  \<open>FormLinearSystem(ess, u, b, A, X, B)\<close>, \<open>GetPrecondtioner(use_amgx)\<close>,
  \<open>cg.SetPreconditioner\<close>, \<open>cg.SetOperator\<close>, \<open>cg.Mult(B, X)\<close>, \<open>RecoverFEMSolution\<close>.
  An abort in \<open>GetPrecondtioner\<close> comes after the system is formed and before the solve.
\<close>
definition solve_system ::
  "'c Library \<Rightarrow> bool \<Rightarrow> ParFiniteElementSpace \<Rightarrow> bool \<Rightarrow> BilinearForm \<Rightarrow> LinearForm \<Rightarrow> DofLists
     \<Rightarrow> event list \<times> (error + ParGridFunction)" where
  "solve_system env MFEM_USE_AMGX fes use_amgx0 a b ess =
     (case GetPrecondtioner MFEM_USE_AMGX use_amgx0 of
        Inl e \<Rightarrow> ([FormLinearSystem a ess], Inl e)
      | Inr prec \<Rightarrow>
          ([FormLinearSystem a ess, CG_Mult prec],
           Inr (GridFunction fes (LinearSolve env fes prec a b ess))))"

text \<open>
  Modelled from the spec: \<open>Array::DeleteAll\<close> is not part of this file; it leaves the
  array empty (the "empty constraint set" of the Neumann solve), here on every rank.
\<close>
definition DeleteAll :: "DofLists \<Rightarrow> DofLists" where
  "DeleteAll l = map (\<lambda>_. []) l"

text \<open>The block "Step 1 - diffuse".\<close>
definition Step1_diffuse ::
  "'c Library \<Rightarrow> bool \<Rightarrow> DistanceFunction \<Rightarrow> event list \<times> (error + DistanceFunction)" where
  "Step1_diffuse env MFEM_USE_AMGX this =
     (let b1 = DomainLF (source this);
          dt = t_param this * dx this * dx this;
          a1 = MassDiffusionForm dt
      in case solve_system env MFEM_USE_AMGX (pfes this) (use_amgx this) a1 b1
                (ess_tdof_list this) of
           (tr1, Inl e) \<Rightarrow> (tr1, Inl e)
         | (tr1, Inr u_dirichlet) \<Rightarrow>
             (let a_n = MassDiffusionForm dt;
                  this1 = this\<lparr>ess_tdof_list := DeleteAll (ess_tdof_list this)\<rparr>
              in case solve_system env MFEM_USE_AMGX (pfes this1) (use_amgx this1) a_n b1
                        (ess_tdof_list this1) of
                   (tr2, Inl e) \<Rightarrow> (tr1 @ tr2, Inl e)
                 | (tr2, Inr u_neumann) \<Rightarrow>
                     (tr1 @ tr2,
                      Inr (this1\<lparr>diffused_source :=
                             map (\<lambda>r. average_loop 0 (diffused_source this1 ! r)
                                        (u_neumann ! r) (u_dirichlet ! r))
                               [0..<length (diffused_source this1)]\<rparr>))))"

text \<open>The block "Step 2 - solve for the distance using the normalized gradient".\<close>
definition Step2_distance ::
  "'c Library \<Rightarrow> bool \<Rightarrow> DistanceFunction \<Rightarrow> event list \<times> (error + DistanceFunction)" where
  "Step2_distance env MFEM_USE_AMGX this =
     (let b2 = DomainLFGrad (diffused_source this);
          a2 = DiffusionForm;
          no_ess_tdofs = no_dofs (pfes this)
      in case solve_system env MFEM_USE_AMGX (pfes this) (use_amgx this) a2 b2 no_ess_tdofs of
           (tr, Inl e) \<Rightarrow> (tr, Inl e)
         | (tr, Inr d) \<Rightarrow> (tr, Inr (this\<lparr>distance := d\<rparr>)))"

text \<open>
  The block "Rescale the distance to have minimum at zero": the local minimum of every
  rank, one \<open>MPI_Allreduce\<close> with \<open>MPI_MIN\<close>, and \<open>distance -= d_min_glob\<close>. The global
  minimum is \<open>+infinity\<close> only when no rank has a value to subtract from.
\<close>
definition Rescale :: "ParGridFunction \<Rightarrow> ParGridFunction" where
  "Rescale d =
     (let d_min_loc = map Vector_Min d;
          d_min_glob = MPI_Allreduce_MIN d_min_loc
      in case d_min_glob of None \<Rightarrow> d | Some m \<Rightarrow> map (map (\<lambda>x. x - m)) d)"

text \<open>The source preparation: projection, optional smoothing, optional peak transform.\<close>
definition PrepareSource ::
  "'c Library \<Rightarrow> ParFiniteElementSpace \<Rightarrow> 'c \<Rightarrow> int \<Rightarrow> bool \<Rightarrow> event list \<times> ParGridFunction" where
  "PrepareSource env fes level_set smooth_steps transform =
     (let projected = GridFunction fes (ProjectCoefficient env fes level_set);
          (tr, smoothed) = (if smooth_steps > 0 then DiffuseField env fes projected smooth_steps
                            else ([], projected))
      in (tr, if transform then map (transform_loop 0) smoothed else smoothed))"

text \<open>
  \<open>DistanceFunction::ComputeDistance\<close>: the calls into the library made, and either the
  abort or the object after the call; the function returns a reference to the member
  \<open>distance\<close> of that object.
\<close>
definition ComputeDistance ::
  "'c Library \<Rightarrow> bool \<Rightarrow> DistanceFunction \<Rightarrow> 'c \<Rightarrow> int \<Rightarrow> bool
     \<Rightarrow> event list \<times> (error + DistanceFunction)" where
  "ComputeDistance env MFEM_USE_AMGX this level_set smooth_steps transform =
     (case PrepareSource env (pfes this) level_set smooth_steps transform of
        (tr0, src) \<Rightarrow>
          (case Step1_diffuse env MFEM_USE_AMGX (this\<lparr>source := src\<rparr>) of
             (tr1, Inl e) \<Rightarrow> (tr0 @ tr1, Inl e)
           | (tr1, Inr this1) \<Rightarrow>
               (case Step2_distance env MFEM_USE_AMGX this1 of
                  (tr2, Inl e) \<Rightarrow> (tr0 @ tr1 @ tr2, Inl e)
                | (tr2, Inr this2) \<Rightarrow>
                    (tr0 @ tr1 @ tr2, Inr (this2\<lparr>distance := Rescale (distance this2)\<rparr>)))))"

section \<open>Notions of the specification\<close>

text \<open>
  The point-wise average \<open>0.5 * (u_Dirichlet + u_Neumann)\<close> of two fields, computed outside
  the algorithm.
\<close>
definition average_outside :: "ParGridFunction \<Rightarrow> ParGridFunction \<Rightarrow> ParGridFunction" where
  "average_outside u_D u_N = map2 (map2 (\<lambda>d n. 0.5 * (d + n))) u_D u_N"

text \<open>All values of a field, over all partitions.\<close>
definition all_values :: "ParGridFunction \<Rightarrow> real list" where
  "all_values f = concat f"

text \<open>The minimum of a list of values; \<open>None\<close> (\<open>+infinity\<close>) when there is none.\<close>
definition global_min :: "real list \<Rightarrow> real option" where
  "global_min vs = (if vs = [] then None else Some (Min (set vs)))"

text \<open>The three grid functions of an object have the sizes of its space.\<close>
definition allocated :: "DistanceFunction \<Rightarrow> bool" where
  "allocated this \<longleftrightarrow>
     map length (distance this) = GetVSize (pfes this) \<and>
     map length (source this) = GetVSize (pfes this) \<and>
     map length (diffused_source this) = GetVSize (pfes this)"

section \<open>A sample run\<close>

text \<open>
  A mesh of two segments of length 1/2 on two ranks, with the two boundary attributes 1
  and 2; the space of order 1 on it has two nodes on every rank, and the boundary node is
  the first node of rank 0 and the second node of rank 1.
\<close>
definition sample_mesh :: ParMesh where
  "sample_mesh =
     \<lparr> ElementVolumes = [[1 / 2], [1 / 2]], ElementBaseGeometry = SEGMENT,
       bdr_attributes = [1, 2] \<rparr>"

definition sample_space :: ParFiniteElementSpace where
  "sample_space = \<lparr> GetVSize = [2, 2], GetEssentialTrueDofs = (\<lambda>marker. [[0], [1]]) \<rparr>"

text \<open>
  A stand-in for the solver that honours the constraint set: the screened-diffusion
  solution is 0 on a constrained node and the source value elsewhere; the solution of the
  second system is the field its right-hand side was built from.
\<close>
fun sample_solve ::
  "ParFiniteElementSpace \<Rightarrow> Solver \<Rightarrow> BilinearForm \<Rightarrow> LinearForm \<Rightarrow> DofLists \<Rightarrow> nat \<Rightarrow> nat \<Rightarrow> real" where
  "sample_solve fes prec (MassDiffusionForm dt) (DomainLF src) ess r i =
     (if int i \<in> set (ess ! r) then 0 else src ! r ! i)"
| "sample_solve fes prec DiffusionForm (DomainLFGrad g) ess r i = g ! r ! i"
| "sample_solve fes prec a b ess r i = 0"

text \<open>A coefficient is given by its nodal values; the stand-in smoother halves a field.\<close>
definition sample_library :: "(nat \<Rightarrow> nat \<Rightarrow> real) Library" where
  "sample_library =
     \<lparr> H1_Space = (\<lambda>pmesh order. sample_space),
       Uninitialized = (\<lambda>r i. 0),
       ProjectCoefficient = (\<lambda>fes c. c),
       HypreSmoother_Mult = (\<lambda>fes n field r i. field ! r ! i / 2),
       LinearSolve = sample_solve \<rparr>"

definition sample_level_set :: "nat \<Rightarrow> nat \<Rightarrow> real" where
  "sample_level_set r i = [[1 / 4, 1 / 2], [1 / 2, 2]] ! r ! i"

text \<open>The object the constructor builds on the sample mesh with order 1 and coefficient 1.\<close>
definition sample_object :: "bool \<Rightarrow> DistanceFunction" where
  "sample_object amgx =
     \<lparr> pfes = sample_space,
       distance = [[0, 0], [0, 0]], source = [[0, 0], [0, 0]],
       diffused_source = [[0, 0], [0, 0]],
       t_param = 1, use_amgx = amgx, dx = 1 / 2, ess_tdof_list = [[0], [1]] \<rparr>"

text \<open>The object after a first and after a second call on the sample level set.\<close>
definition sample_after_first :: DistanceFunction where
  "sample_after_first =
     \<lparr> pfes = sample_space,
       distance = [[0, 3 / 8], [3 / 8, 7 / 8]],
       source = [[1 / 4, 1 / 2], [1 / 2, 2]],
       diffused_source = [[1 / 8, 1 / 2], [1 / 2, 1]],
       t_param = 1, use_amgx = False, dx = 1 / 2, ess_tdof_list = [[], []] \<rparr>"

definition sample_after_second :: DistanceFunction where
  "sample_after_second =
     \<lparr> pfes = sample_space,
       distance = [[0, 1 / 4], [1 / 4, 7 / 4]],
       source = [[1 / 4, 1 / 2], [1 / 2, 2]],
       diffused_source = [[1 / 4, 1 / 2], [1 / 2, 2]],
       t_param = 1, use_amgx = False, dx = 1 / 2, ess_tdof_list = [[], []] \<rparr>"

text \<open>The object after a first call on the sample level set with the peak transform.\<close>
definition sample_after_transform :: DistanceFunction where
  "sample_after_transform =
     \<lparr> pfes = sample_space,
       distance = [[3 / 8, 1], [1, 0]],
       source = [[3 / 4, 1], [1, 0]],
       diffused_source = [[3 / 8, 1], [1, 0]],
       t_param = 1, use_amgx = False, dx = 1 / 2, ess_tdof_list = [[], []] \<rparr>"

section \<open>The sample run with the exact solutions\<close>

text \<open>
  Modelled from the spec: the Linear System Solver on the sample mesh, by the exact
  solutions of the two systems of the algorithm for piecewise linear elements. The mesh
  has the three nodes 0, 1/2 and 1; node \<open>r + i\<close> is node \<open>i\<close> of rank \<open>r\<close>, and a node is
  constrained when a rank lists it.

  With \<open>h = 1/2\<close> the element mass matrix is \<open>(h/6) [[2, 1], [1, 2]]\<close> and the element
  stiffness matrix \<open>(1/h) [[1, -1], [-1, 1]]\<close>. \<open>P1_load\<close> is \<open>M * source\<close> assembled from
  the values of each rank on its own element; \<open>P1_rows\<close> are the rows of \<open>M + dt * L\<close>
  after the elimination of the constrained nodes (unit row, zero column, value 0).
\<close>
type_synonym vec3 = "real \<times> real \<times> real"

definition P1_load :: "ParGridFunction \<Rightarrow> vec3" where
  "P1_load src =
     (let s0 = src ! 0 ! 0; s1 = src ! 0 ! 1; s1' = src ! 1 ! 0; s2 = src ! 1 ! 1
      in ((2 * s0 + s1) / 12, (s0 + 2 * s1) / 12 + (2 * s1' + s2) / 12, (s1' + 2 * s2) / 12))"

definition constrained :: "DofLists \<Rightarrow> nat \<Rightarrow> bool" where
  "constrained ess node =
     (if node = 0 then 0 \<in> set (ess ! 0)
      else if node = 1 then 1 \<in> set (ess ! 0) \<or> 0 \<in> set (ess ! 1)
      else 1 \<in> set (ess ! 1))"

definition P1_rows :: "real \<Rightarrow> DofLists \<Rightarrow> vec3 \<times> vec3 \<times> vec3" where
  "P1_rows dt ess =
     (let p = 1 / 6 + 2 * dt; q = 1 / 3 + 4 * dt; r = 1 / 12 - 2 * dt;
          c0 = constrained ess 0; c1 = constrained ess 1; c2 = constrained ess 2
      in ((if c0 then (1, 0, 0) else (p, if c1 then 0 else r, 0)),
          (if c1 then (0, 1, 0) else (if c0 then 0 else r, q, if c2 then 0 else r)),
          (if c2 then (0, 0, 1) else (0, if c1 then 0 else r, p))))"

definition P1_rhs :: "ParGridFunction \<Rightarrow> DofLists \<Rightarrow> vec3" where
  "P1_rhs src ess =
     (case P1_load src of (b0, b1, b2) \<Rightarrow>
        (if constrained ess 0 then 0 else b0,
         if constrained ess 1 then 0 else b1,
         if constrained ess 2 then 0 else b2))"

text \<open>The determinant of three rows, and the solution of a 3 x 3 system by Cramer's rule.\<close>
fun det3 :: "vec3 \<Rightarrow> vec3 \<Rightarrow> vec3 \<Rightarrow> real" where
  "det3 (a, b, c) (d, e, f) (g, h, i) =
     a * (e * i - f * h) - b * (d * i - f * g) + c * (d * h - e * g)"

fun cramer3 :: "vec3 \<times> vec3 \<times> vec3 \<Rightarrow> vec3 \<Rightarrow> vec3" where
  "cramer3 ((a, b, c), (d, e, f), (g, h, i)) (x, y, z) =
     (det3 (x, b, c) (y, e, f) (z, h, i) / det3 (a, b, c) (d, e, f) (g, h, i),
      det3 (a, x, c) (d, y, f) (g, z, i) / det3 (a, b, c) (d, e, f) (g, h, i),
      det3 (a, b, x) (d, e, y) (g, h, z) / det3 (a, b, c) (d, e, f) (g, h, i))"

text \<open>The product of a row of a system with a vector of nodal values.\<close>
fun dot3 :: "vec3 \<Rightarrow> vec3 \<Rightarrow> real" where
  "dot3 (a, b, c) (x, y, z) = a * x + b * y + c * z"

text \<open>
  The second system, \<open>L d = rhs\<close> without constraints: the right-hand side is the integral
  of the unit field pointing down the gradient of the diffused field (the field of the
  heat method) against the gradients of the basis functions; with the signs \<open>g1\<close>, \<open>g2\<close> of
  the gradient on the two elements it is \<open>(g1, g2 - g1, - g2)\<close>. The system determines \<open>d\<close>
  up to a constant; the solution given is the one of sum 0, which the conjugate-gradient
  iteration started from 0 converges to.
\<close>
definition P1_distance :: "ParGridFunction \<Rightarrow> vec3" where
  "P1_distance u =
     (let g1 = sgn (u ! 0 ! 1 - u ! 0 ! 0); g2 = sgn (u ! 1 ! 1 - u ! 1 ! 0);
          d0 = (2 * g1 + g2) / 6
      in (d0, d0 - g1 / 2, d0 - g1 / 2 - g2 / 2))"

fun node_value :: "vec3 \<Rightarrow> nat \<Rightarrow> real" where
  "node_value (v0, v1, v2) n = (if n = 0 then v0 else if n = 1 then v1 else v2)"

fun exact_solve ::
  "ParFiniteElementSpace \<Rightarrow> Solver \<Rightarrow> BilinearForm \<Rightarrow> LinearForm \<Rightarrow> DofLists \<Rightarrow> nat \<Rightarrow> nat \<Rightarrow> real" where
  "exact_solve fes prec (MassDiffusionForm dt) (DomainLF src) ess r i =
     node_value (cramer3 (P1_rows dt ess) (P1_rhs src ess)) (r + i)"
| "exact_solve fes prec DiffusionForm (DomainLFGrad u) ess r i = node_value (P1_distance u) (r + i)"
| "exact_solve fes prec a b ess r i = 0"

definition exact_library :: "(nat \<Rightarrow> nat \<Rightarrow> real) Library" where
  "exact_library = sample_library\<lparr>LinearSolve := exact_solve\<rparr>"

text \<open>A level set with the nodal values 1, 0, 1 (the function \<open>|2 x - 1|\<close>).\<close>
definition exact_level_set :: "nat \<Rightarrow> nat \<Rightarrow> real" where
  "exact_level_set r i = [[1, 0], [0, 1]] ! r ! i"

text \<open>The sample object after a first and after a second call on this level set.\<close>
definition exact_after_first :: DistanceFunction where
  "exact_after_first =
     \<lparr> pfes = sample_space,
       distance = [[1 / 2, 0], [0, 1 / 2]],
       source = [[1, 0], [0, 1]],
       diffused_source = [[7 / 26, 61 / 208], [61 / 208, 7 / 26]],
       t_param = 1, use_amgx = False, dx = 1 / 2, ess_tdof_list = [[], []] \<rparr>"

definition exact_after_second :: DistanceFunction where
  "exact_after_second =
     \<lparr> pfes = sample_space,
       distance = [[0, 1 / 2], [1 / 2, 0]],
       source = [[1, 0], [0, 1]],
       diffused_source = [[7 / 13, 6 / 13], [6 / 13, 7 / 13]],
       t_param = 1, use_amgx = False, dx = 1 / 2, ess_tdof_list = [[], []] \<rparr>"

section \<open>The loops and the reductions\<close>

declare area_loop.simps [simp del] transform_loop.simps [simp del] average_loop.simps [simp del]

lemma area_loop_sum: "area_loop vols i acc = acc + sum_list (drop i vols)"
proof (induction vols i acc rule: area_loop.induct)
  case (1 vols i loc_area)
  show ?case
  proof (cases "i < length vols")
    case True
    then have "drop i vols = vols ! i # drop (Suc i) vols"
      by (simp add: Cons_nth_drop_Suc)
    with True 1 show ?thesis
      by (subst area_loop.simps) simp
  next
    case False
    then show ?thesis by (subst area_loop.simps) simp
  qed
qed

lemma MPI_Allreduce_SUM_sum_list: "MPI_Allreduce_SUM xs = sum_list xs"
proof -
  have "fold (\<lambda>x acc. acc + x) xs a = a + sum_list xs" for a :: real
    by (induction xs arbitrary: a) simp_all
  then show ?thesis by (simp add: MPI_Allreduce_SUM_def)
qed

lemma glob_area_total:
  "MPI_Allreduce_SUM (map (\<lambda>vols. area_loop vols 0 0) vss) = sum_list (concat vss)"
  by (induction vss) (simp_all add: MPI_Allreduce_SUM_sum_list area_loop_sum)

lemma glob_zones_total: "GetGlobalNE pmesh = int (length (concat (ElementVolumes pmesh)))"
  by (simp add: GetGlobalNE_def length_concat)

lemma transform_loop_take_drop:
  "transform_loop i src = take i src @ map peak (drop i src)"
proof (induction i src rule: transform_loop.induct)
  case (1 i src)
  show ?case
  proof (cases "i < length src")
    case True
    have "transform_loop i src = transform_loop (Suc i) (src[i := peak (src ! i)])"
      using True by (subst transform_loop.simps) simp
    also have "\<dots> = take (Suc i) (src[i := peak (src ! i)]) @ map peak (drop (Suc i) (src[i := peak (src ! i)]))"
      using 1 True by simp
    also have "\<dots> = take i src @ map peak (drop i src)"
      using True by (simp add: take_Suc_conv_app_nth Cons_nth_drop_Suc [symmetric])
    finally show ?thesis .
  next
    case False
    then show ?thesis by (subst transform_loop.simps) simp
  qed
qed

lemma transform_loop_map: "transform_loop 0 src = map peak src"
  by (simp add: transform_loop_take_drop)

lemma average_loop_take_drop:
  "length u_neumann = length diffused \<Longrightarrow> length u_dirichlet = length diffused \<Longrightarrow>
   average_loop i diffused u_neumann u_dirichlet =
     take i diffused @ map2 (\<lambda>n d. 0.5 * (n + d)) (drop i u_neumann) (drop i u_dirichlet)"
proof (induction i diffused u_neumann u_dirichlet rule: average_loop.induct)
  case (1 i diffused u_neumann u_dirichlet)
  show ?case
  proof (cases "i < length diffused")
    case True
    let ?d = "diffused[i := 0.5 * (u_neumann ! i + u_dirichlet ! i)]"
    have "average_loop i diffused u_neumann u_dirichlet = average_loop (Suc i) ?d u_neumann u_dirichlet"
      using True by (subst average_loop.simps) simp
    also have "\<dots> = take (Suc i) ?d @ map2 (\<lambda>n d. 0.5 * (n + d)) (drop (Suc i) u_neumann) (drop (Suc i) u_dirichlet)"
      using 1 True by simp
    also have "\<dots> = take i diffused @ map2 (\<lambda>n d. 0.5 * (n + d)) (drop i u_neumann) (drop i u_dirichlet)"
      using True 1(2,3) by (simp add: take_Suc_conv_app_nth Cons_nth_drop_Suc [symmetric])
    finally show ?thesis .
  next
    case False
    with 1(2,3) show ?thesis by (subst average_loop.simps) simp
  qed
qed

lemma average_loop_map2:
  "length u_neumann = length diffused \<Longrightarrow> length u_dirichlet = length diffused \<Longrightarrow>
   average_loop 0 diffused u_neumann u_dirichlet = map2 (\<lambda>n d. 0.5 * (n + d)) u_neumann u_dirichlet"
  by (simp add: average_loop_take_drop)

lemma length_GridFunction [simp]: "length (GridFunction fes f) = length (GetVSize fes)"
  by (simp add: GridFunction_def)

lemma shape_GridFunction [simp]: "map length (GridFunction fes f) = GetVSize fes"
proof -
  have "map length (GridFunction fes f) = map (\<lambda>r. GetVSize fes ! r) [0..<length (GetVSize fes)]"
    by (simp add: GridFunction_def comp_def)
  also have "\<dots> = GetVSize fes"
    by (rule map_nth)
  finally show ?thesis .
qed

section \<open>Evaluation of the sample run\<close>

lemma sample_space_simps:
  "GetVSize sample_space = [2, 2]" "GetEssentialTrueDofs sample_space m = [[0], [1]]"
  by (simp_all add: sample_space_def)

lemma GridFunction_sample:
  "GridFunction sample_space f = [[f 0 0, f 0 1], [f 1 0, f 1 1]]"
  by (simp add: GridFunction_def sample_space_simps upt_conv_Cons numeral_2_eq_2)

lemma sample_library_simps:
  "H1_Space sample_library pmesh order = sample_space"
  "Uninitialized sample_library r i = 0"
  "ProjectCoefficient sample_library fes c = c"
  "HypreSmoother_Mult sample_library fes n field r i = field ! r ! i / 2"
  "LinearSolve sample_library = sample_solve"
  by (simp_all add: sample_library_def)

lemma sample_new:
  "DistanceFunction_new sample_library sample_mesh 1 1 amgx = Inr (sample_object amgx)"
  by (simp add: DistanceFunction_new_def sample_library_simps sample_mesh_def GridFunction_sample
      sample_object_def area_loop_sum MPI_Allreduce_SUM_sum_list GetGlobalNE_def
      sample_space_simps Let_def)

lemma sample_first:
  "ComputeDistance sample_library False (sample_object False) sample_level_set 0 False =
     ([FormLinearSystem (MassDiffusionForm (1 / 4)) [[0], [1]], CG_Mult HypreBoomerAMG,
       FormLinearSystem (MassDiffusionForm (1 / 4)) [[], []], CG_Mult HypreBoomerAMG,
       FormLinearSystem DiffusionForm [[], []], CG_Mult HypreBoomerAMG],
      Inr sample_after_first)"
  by (simp add: ComputeDistance_def PrepareSource_def Step1_diffuse_def Step2_distance_def
      solve_system_def GetPrecondtioner_def sample_object_def Let_def
      sample_library_simps GridFunction_sample sample_level_set_def DeleteAll_def
      no_dofs_def sample_space_simps upt_conv_Cons average_loop_map2
      Rescale_def Vector_Min_def MPI_Allreduce_MIN_def sample_after_first_def)

lemma sample_second:
  "ComputeDistance sample_library False sample_after_first sample_level_set 0 False =
     ([FormLinearSystem (MassDiffusionForm (1 / 4)) [[], []], CG_Mult HypreBoomerAMG,
       FormLinearSystem (MassDiffusionForm (1 / 4)) [[], []], CG_Mult HypreBoomerAMG,
       FormLinearSystem DiffusionForm [[], []], CG_Mult HypreBoomerAMG],
      Inr sample_after_second)"
  by (simp add: ComputeDistance_def PrepareSource_def Step1_diffuse_def Step2_distance_def
      solve_system_def GetPrecondtioner_def sample_after_first_def Let_def
      sample_library_simps GridFunction_sample sample_level_set_def DeleteAll_def
      no_dofs_def sample_space_simps upt_conv_Cons average_loop_map2
      Rescale_def Vector_Min_def MPI_Allreduce_MIN_def sample_after_second_def)

lemma sample_abort:
  "ComputeDistance sample_library False (sample_object True) sample_level_set 3 True =
     ([Smoother_Mult 3, FormLinearSystem (MassDiffusionForm (1 / 4)) [[0], [1]]],
      Inl (Abort ''AMGX not enabled \<newline>''))"
  by (simp add: ComputeDistance_def PrepareSource_def Step1_diffuse_def DiffuseField_def
      solve_system_def GetPrecondtioner_def sample_object_def Let_def)

section \<open>The structure of a call\<close>

lemma GetPrecondtioner_eq:
  "GetPrecondtioner B u =
     (if u \<and> \<not> B then Inl (Abort ''AMGX not enabled \<newline>'')
      else Inr (if u then AmgXSolver else HypreBoomerAMG))"
  by (simp add: GetPrecondtioner_def)

lemma solve_system_eq:
  "solve_system env B fes u a b ess =
     (if u \<and> \<not> B then ([FormLinearSystem a ess], Inl (Abort ''AMGX not enabled \<newline>''))
      else ([FormLinearSystem a ess, CG_Mult (if u then AmgXSolver else HypreBoomerAMG)],
            Inr (GridFunction fes
                  (LinearSolve env fes (if u then AmgXSolver else HypreBoomerAMG) a b ess))))"
  by (simp add: solve_system_def GetPrecondtioner_eq)

lemma PrepareSource_eq:
  "PrepareSource env fes ls k t =
     (if k > 0 then [Smoother_Mult k] else [],
      let projected = GridFunction fes (ProjectCoefficient env fes ls);
          smoothed = (if k > 0 then GridFunction fes (HypreSmoother_Mult env fes k projected)
                      else projected)
      in if t then map (map peak) smoothed else smoothed)"
  by (simp add: PrepareSource_def DiffuseField_def Let_def transform_loop_map [abs_def])

lemma Step1_abort:
  "use_amgx this \<and> \<not> B \<Longrightarrow>
   Step1_diffuse env B this =
     ([FormLinearSystem (MassDiffusionForm (t_param this * dx this * dx this)) (ess_tdof_list this)],
      Inl (Abort ''AMGX not enabled \<newline>''))"
  by (simp add: Step1_diffuse_def solve_system_eq Let_def)

lemma Step1_ok:
  "\<not> (use_amgx this \<and> \<not> B) \<Longrightarrow>
   Step1_diffuse env B this =
     (let prec = (if use_amgx this then AmgXSolver else HypreBoomerAMG);
          a = MassDiffusionForm (t_param this * dx this * dx this);
          b = DomainLF (source this);
          u_d = GridFunction (pfes this) (LinearSolve env (pfes this) prec a b (ess_tdof_list this));
          u_n = GridFunction (pfes this)
                  (LinearSolve env (pfes this) prec a b (DeleteAll (ess_tdof_list this)))
      in ([FormLinearSystem a (ess_tdof_list this), CG_Mult prec,
           FormLinearSystem a (DeleteAll (ess_tdof_list this)), CG_Mult prec],
          Inr (this\<lparr>ess_tdof_list := DeleteAll (ess_tdof_list this),
                    diffused_source :=
                      map (\<lambda>r. average_loop 0 (diffused_source this ! r) (u_n ! r) (u_d ! r))
                        [0..<length (diffused_source this)]\<rparr>)))"
  by (simp add: Step1_diffuse_def solve_system_eq Let_def)

lemma Step2_eq:
  "Step2_distance env B this =
     (if use_amgx this \<and> \<not> B
      then ([FormLinearSystem DiffusionForm (no_dofs (pfes this))],
            Inl (Abort ''AMGX not enabled \<newline>''))
      else ([FormLinearSystem DiffusionForm (no_dofs (pfes this)),
             CG_Mult (if use_amgx this then AmgXSolver else HypreBoomerAMG)],
            Inr (this\<lparr>distance := GridFunction (pfes this)
                   (LinearSolve env (pfes this) (if use_amgx this then AmgXSolver else HypreBoomerAMG)
                      DiffusionForm (DomainLFGrad (diffused_source this)) (no_dofs (pfes this)))\<rparr>)))"
  by (simp add: Step2_distance_def solve_system_eq Let_def)

lemma ComputeDistance_abort:
  "use_amgx this \<and> \<not> B \<Longrightarrow>
   ComputeDistance env B this ls k t =
     ((if k > 0 then [Smoother_Mult k] else []) @
      [FormLinearSystem (MassDiffusionForm (t_param this * dx this * dx this)) (ess_tdof_list this)],
      Inl (Abort ''AMGX not enabled \<newline>''))"
  by (simp add: ComputeDistance_def PrepareSource_eq Step1_abort)

lemma ComputeDistance_ok:
  assumes "\<not> (use_amgx this \<and> \<not> B)"
  shows "ComputeDistance env B this ls k t =
     (let fes = pfes this;
          prec = (if use_amgx this then AmgXSolver else HypreBoomerAMG);
          a = MassDiffusionForm (t_param this * dx this * dx this);
          src = snd (PrepareSource env fes ls k t);
          u_d = GridFunction fes (LinearSolve env fes prec a (DomainLF src) (ess_tdof_list this));
          u_n = GridFunction fes (LinearSolve env fes prec a (DomainLF src) (DeleteAll (ess_tdof_list this)));
          diffused = map (\<lambda>r. average_loop 0 (diffused_source this ! r) (u_n ! r) (u_d ! r))
                        [0..<length (diffused_source this)];
          d = GridFunction fes (LinearSolve env fes prec DiffusionForm (DomainLFGrad diffused) (no_dofs fes))
      in ((if k > 0 then [Smoother_Mult k] else []) @
          [FormLinearSystem a (ess_tdof_list this), CG_Mult prec,
           FormLinearSystem a (DeleteAll (ess_tdof_list this)), CG_Mult prec,
           FormLinearSystem DiffusionForm (no_dofs fes), CG_Mult prec],
          Inr (this\<lparr>source := src, ess_tdof_list := DeleteAll (ess_tdof_list this),
                    diffused_source := diffused, distance := Rescale d\<rparr>)))"
  using assms
  by (simp add: ComputeDistance_def PrepareSource_eq Step1_ok Step2_eq Let_def)

lemma average_ranks:
  assumes "map length ds = sizes" "map length un = sizes" "map length ud = sizes"
  shows "map (\<lambda>r. average_loop 0 (ds ! r) (un ! r) (ud ! r)) [0..<length ds] =
         map2 (map2 (\<lambda>n d. 0.5 * (n + d))) un ud"
proof -
  have len: "length un = length ds" "length ud = length ds"
    using assms by (metis length_map)+
  have each: "length (un ! r) = length (ds ! r) \<and> length (ud ! r) = length (ds ! r)"
    if "r < length ds" for r
  proof -
    have "map length un ! r = map length ds ! r" "map length ud ! r = map length ds ! r"
      using assms by simp_all
    with that len show ?thesis by simp
  qed
  show ?thesis
    by (rule nth_equalityI) (simp_all add: len each average_loop_map2)
qed

lemma Vector_Min_eq: "Vector_Min v = global_min v"
  by (cases v) (simp_all add: Vector_Min_def global_min_def Min.set_eq_fold [symmetric])

lemma global_min_append: "global_min (v @ w) = min_inf (global_min v) (global_min w)"
proof (cases "v = [] \<or> w = []")
  case True
  then show ?thesis by (auto simp: global_min_def)
next
  case False
  then have "Min (set v \<union> set w) = min (Min (set v)) (Min (set w))"
    by (intro Min_Un) simp_all
  with False show ?thesis by (simp add: global_min_def)
qed

lemma min_inf_assoc: "min_inf (min_inf a b) c = min_inf a (min_inf b c)"
  by (cases a; cases b; cases c) (simp_all add: min.assoc)

lemma min_inf_None_right [simp]: "min_inf a None = a"
  by (cases a) simp_all

lemma fold_min_inf:
  "fold min_inf (map global_min d) acc = min_inf (global_min (concat d)) acc"
proof (induction d arbitrary: acc)
  case Nil
  then show ?case by (simp add: global_min_def)
next
  case (Cons v d)
  have comm: "min_inf a b = min_inf b a" for a b
    by (cases a; cases b) (simp_all add: min.commute)
  have "fold min_inf (map global_min (v # d)) acc = min_inf (global_min (concat d)) (min_inf (global_min v) acc)"
    using Cons by simp
  also have "\<dots> = min_inf (min_inf (global_min v) (global_min (concat d))) acc"
    by (metis comm min_inf_assoc)
  finally show ?case by (simp add: global_min_append)
qed

lemma MPI_Allreduce_MIN_global:
  "MPI_Allreduce_MIN (map Vector_Min d) = global_min (concat d)"
proof -
  have "Vector_Min = global_min" by (rule ext) (rule Vector_Min_eq)
  then show ?thesis by (simp add: MPI_Allreduce_MIN_def fold_min_inf)
qed

lemma Rescale_eq:
  "concat d \<noteq> [] \<Longrightarrow> Rescale d = map (map (\<lambda>x. x - Min (set (concat d)))) d"
  by (simp add: Rescale_def MPI_Allreduce_MIN_global Let_def global_min_def
      del: concat_eq_Nil_conv set_concat)

lemma Rescale_min_zero:
  assumes "concat d \<noteq> []"
  shows "Min (set (concat (Rescale d))) = 0" and "\<forall>x \<in> set (concat (Rescale d)). 0 \<le> x"
proof -
  let ?m = "Min (set (concat d))"
  have c: "concat (Rescale d) = map (\<lambda>x. x - ?m) (concat d)"
    using assms by (simp add: Rescale_eq map_concat del: concat_eq_Nil_conv set_concat)
  have ne: "set (concat d) \<noteq> {}" using assms by (simp del: concat_eq_Nil_conv set_concat)
  have "mono (\<lambda>x::real. x - ?m)" by (simp add: mono_def)
  then have "(\<lambda>x. x - ?m) (Min (set (concat d))) = Min ((\<lambda>x. x - ?m) ` set (concat d))"
    using ne by (intro mono_Min_commute) simp_all
  then show "Min (set (concat (Rescale d))) = 0" by (simp add: c del: set_concat)
  have "?m \<le> x" if "x \<in> set (concat d)" for x
    using that by (intro Min_le) simp_all
  then show "\<forall>x \<in> set (concat (Rescale d)). 0 \<le> x"
    unfolding c by (auto simp del: set_concat)
qed

lemma length_average_loop [simp]:
  "length (average_loop i diffused u_neumann u_dirichlet) = length diffused"
proof (induction i diffused u_neumann u_dirichlet rule: average_loop.induct)
  case (1 i diffused u_neumann u_dirichlet)
  show ?case
  proof (cases "i < length diffused")
    case True
    with 1 show ?thesis by (subst average_loop.simps) simp
  next
    case False
    then show ?thesis by (subst average_loop.simps) simp
  qed
qed

lemma shape_Rescale [simp]: "map length (Rescale d) = map length d"
  by (simp add: Rescale_def Let_def comp_def split: option.splits)

lemma shape_average:
  "map length (map (\<lambda>r. average_loop 0 (ds ! r) (un ! r) (ud ! r)) [0..<length ds]) = map length ds"
  by (rule nth_equalityI) simp_all

lemma new_allocated:
  "DistanceFunction_new env pmesh order c u = Inr obj \<Longrightarrow> allocated obj"
  unfolding DistanceFunction_new_def Let_def
  by (cases "mesh_size (ElementBaseGeometry pmesh)
        (MPI_Allreduce_SUM (map (\<lambda>vols. area_loop vols 0 0) (ElementVolumes pmesh)))
        (GetGlobalNE pmesh)") (auto simp: allocated_def)

lemma ComputeDistance_Inr_iff:
  "(\<exists>this'. snd (ComputeDistance env B this ls k t) = Inr this') \<longleftrightarrow> \<not> (use_amgx this \<and> \<not> B)"
proof (cases "use_amgx this \<and> \<not> B")
  case True
  then show ?thesis by (simp add: ComputeDistance_abort)
next
  case False
  then show ?thesis by (simp add: ComputeDistance_ok [OF False] Let_def)
qed

lemma ComputeDistance_result:
  assumes "snd (ComputeDistance env B this ls k t) = Inr this'"
  shows "\<not> (use_amgx this \<and> \<not> B)"
    and "ComputeDistance env B this ls k t =
           ((if k > 0 then [Smoother_Mult k] else []) @
            [FormLinearSystem (MassDiffusionForm (t_param this * dx this * dx this)) (ess_tdof_list this),
             CG_Mult (if use_amgx this then AmgXSolver else HypreBoomerAMG),
             FormLinearSystem (MassDiffusionForm (t_param this * dx this * dx this)) (DeleteAll (ess_tdof_list this)),
             CG_Mult (if use_amgx this then AmgXSolver else HypreBoomerAMG),
             FormLinearSystem DiffusionForm (no_dofs (pfes this)),
             CG_Mult (if use_amgx this then AmgXSolver else HypreBoomerAMG)],
            Inr this')"
proof -
  show ok: "\<not> (use_amgx this \<and> \<not> B)"
  proof
    assume "use_amgx this \<and> \<not> B"
    then have "snd (ComputeDistance env B this ls k t) = Inl (Abort ''AMGX not enabled \<newline>'')"
      by (simp add: ComputeDistance_abort)
    with assms show False by simp
  qed
  have "fst (ComputeDistance env B this ls k t) =
           (if k > 0 then [Smoother_Mult k] else []) @
            [FormLinearSystem (MassDiffusionForm (t_param this * dx this * dx this)) (ess_tdof_list this),
             CG_Mult (if use_amgx this then AmgXSolver else HypreBoomerAMG),
             FormLinearSystem (MassDiffusionForm (t_param this * dx this * dx this)) (DeleteAll (ess_tdof_list this)),
             CG_Mult (if use_amgx this then AmgXSolver else HypreBoomerAMG),
             FormLinearSystem DiffusionForm (no_dofs (pfes this)),
             CG_Mult (if use_amgx this then AmgXSolver else HypreBoomerAMG)]"
    by (subst ComputeDistance_ok [OF ok]) (simp only: Let_def fst_conv)
  with assms show "ComputeDistance env B this ls k t =
           ((if k > 0 then [Smoother_Mult k] else []) @
            [FormLinearSystem (MassDiffusionForm (t_param this * dx this * dx this)) (ess_tdof_list this),
             CG_Mult (if use_amgx this then AmgXSolver else HypreBoomerAMG),
             FormLinearSystem (MassDiffusionForm (t_param this * dx this * dx this)) (DeleteAll (ess_tdof_list this)),
             CG_Mult (if use_amgx this then AmgXSolver else HypreBoomerAMG),
             FormLinearSystem DiffusionForm (no_dofs (pfes this)),
             CG_Mult (if use_amgx this then AmgXSolver else HypreBoomerAMG)],
            Inr this')"
    by (simp only: prod_eq_iff fst_conv snd_conv simp_thms)
qed

lemma ComputeDistance_object:
  assumes "snd (ComputeDistance env B this ls k t) = Inr this'"
  shows "this' =
     (let fes = pfes this;
          prec = (if use_amgx this then AmgXSolver else HypreBoomerAMG);
          a = MassDiffusionForm (t_param this * dx this * dx this);
          src = snd (PrepareSource env fes ls k t);
          u_d = GridFunction fes (LinearSolve env fes prec a (DomainLF src) (ess_tdof_list this));
          u_n = GridFunction fes (LinearSolve env fes prec a (DomainLF src) (DeleteAll (ess_tdof_list this)));
          diffused = map (\<lambda>r. average_loop 0 (diffused_source this ! r) (u_n ! r) (u_d ! r))
                        [0..<length (diffused_source this)];
          d = GridFunction fes (LinearSolve env fes prec DiffusionForm (DomainLFGrad diffused) (no_dofs fes))
      in this\<lparr>source := src, ess_tdof_list := DeleteAll (ess_tdof_list this),
                    diffused_source := diffused, distance := Rescale d\<rparr>)"
proof -
  note ok = ComputeDistance_result(1) [OF assms]
  have "Inr this' = snd (ComputeDistance env B this ls k t)"
    using assms by simp
  also note ComputeDistance_ok [OF ok]
  finally show ?thesis
    by (simp only: Let_def snd_conv sum.inject)
qed

lemma ComputeDistance_fields:
  assumes "snd (ComputeDistance env B this ls k t) = Inr this'"
  shows "pfes this' = pfes this" and "t_param this' = t_param this" and "dx this' = dx this"
    and "use_amgx this' = use_amgx this"
    and "source this' = snd (PrepareSource env (pfes this) ls k t)"
    and "ess_tdof_list this' = DeleteAll (ess_tdof_list this)"
  by (simp_all add: ComputeDistance_object [OF assms] Let_def)

lemma ComputeDistance_diffused:
  assumes "snd (ComputeDistance env B this ls k t) = Inr this'"
  shows "diffused_source this' =
     (let fes = pfes this;
          prec = (if use_amgx this then AmgXSolver else HypreBoomerAMG);
          a = MassDiffusionForm (t_param this * dx this * dx this);
          src = source this';
          u_d = GridFunction fes (LinearSolve env fes prec a (DomainLF src) (ess_tdof_list this));
          u_n = GridFunction fes (LinearSolve env fes prec a (DomainLF src) (DeleteAll (ess_tdof_list this)))
      in map (\<lambda>r. average_loop 0 (diffused_source this ! r) (u_n ! r) (u_d ! r))
           [0..<length (diffused_source this)])"
  by (simp add: ComputeDistance_object [OF assms] Let_def)

lemma ComputeDistance_distance:
  assumes "snd (ComputeDistance env B this ls k t) = Inr this'"
  shows "distance this' =
     Rescale (GridFunction (pfes this)
       (LinearSolve env (pfes this) (if use_amgx this then AmgXSolver else HypreBoomerAMG)
          DiffusionForm (DomainLFGrad (diffused_source this')) (no_dofs (pfes this))))"
  by (simp add: ComputeDistance_object [OF assms] Let_def)

lemma ComputeDistance_allocated:
  assumes "snd (ComputeDistance env B this ls k t) = Inr this'" "allocated this"
  shows "allocated this'"
proof -
  have "map length (snd (PrepareSource env (pfes this) ls k t)) = GetVSize (pfes this)"
    by (simp add: PrepareSource_eq Let_def comp_def)
  moreover have "map length (diffused_source this') = map length (diffused_source this)"
    by (simp only: ComputeDistance_diffused [OF assms(1)] Let_def shape_average)
  moreover have "map length (distance this') = GetVSize (pfes this)"
    by (simp only: ComputeDistance_distance [OF assms(1)] shape_Rescale shape_GridFunction)
  ultimately show ?thesis
    using assms(2) by (simp add: allocated_def ComputeDistance_fields [OF assms(1)])
qed

lemma average_flip:
  "map2 (\<lambda>n d. 0.5 * (n + d)) x y = map2 (\<lambda>d n. 0.5 * (d + n)) y (x :: real list)"
proof (induction x arbitrary: y)
  case Nil
  then show ?case by simp
next
  case (Cons a x)
  then show ?case by (cases y) (simp_all add: add.commute)
qed

lemma average_outside_flip:
  "map2 (map2 (\<lambda>n d. 0.5 * (n + d))) un ud = average_outside ud un"
proof (induction un arbitrary: ud)
  case Nil
  then show ?case by (simp add: average_outside_def)
next
  case (Cons x un)
  show ?case
  proof (cases ud)
    case Nil
    then show ?thesis by (simp add: average_outside_def)
  next
    case (Cons y ud')
    have "map2 (\<lambda>n d. 0.5 * (n + d)) x y = map2 (\<lambda>d n. 0.5 * (d + n)) y x"
      by (rule average_flip)
    moreover have "map2 (map2 (\<lambda>n d. 0.5 * (n + d))) un ud' = average_outside ud' un"
      by (rule Cons.IH)
    ultimately show ?thesis
      unfolding Cons average_outside_def by (simp only: zip_Cons_Cons list.map prod.case)
  qed
qed

section \<open>Further facts used by the claims\<close>

lemma sample_transform:
  "ComputeDistance sample_library False (sample_object False) sample_level_set 0 True =
     ([FormLinearSystem (MassDiffusionForm (1 / 4)) [[0], [1]], CG_Mult HypreBoomerAMG,
       FormLinearSystem (MassDiffusionForm (1 / 4)) [[], []], CG_Mult HypreBoomerAMG,
       FormLinearSystem DiffusionForm [[], []], CG_Mult HypreBoomerAMG],
      Inr sample_after_transform)"
  by (simp add: ComputeDistance_def PrepareSource_def Step1_diffuse_def Step2_distance_def
      solve_system_def GetPrecondtioner_def sample_object_def Let_def
      sample_library_simps GridFunction_sample sample_level_set_def DeleteAll_def
      no_dofs_def sample_space_simps upt_conv_Cons average_loop_map2 transform_loop_map peak_def
      Rescale_def Vector_Min_def MPI_Allreduce_MIN_def sample_after_transform_def)

lemma sample_object_simps:
  "pfes (sample_object amgx) = sample_space" "use_amgx (sample_object amgx) = amgx"
  "t_param (sample_object amgx) = 1" "dx (sample_object amgx) = 1 / 2"
  "ess_tdof_list (sample_object amgx) = [[0], [1]]"
  "diffused_source (sample_object amgx) = [[0, 0], [0, 0]]"
  by (simp_all add: sample_object_def)

lemma peak_bounds: "0 \<le> peak x" "peak x \<le> 1"
proof -
  have "0 \<le> (2 * x - 1)\<^sup>2" by simp
  then have "4 * x * (1 - x) \<le> 1" by (simp add: power2_eq_square algebra_simps)
  then show "peak x \<le> 1" by (simp add: peak_def)
  show "0 \<le> peak x" by (simp add: peak_def)
qed

lemma DeleteAll_replicate: "DeleteAll l = replicate (length l) []"
  by (simp add: DeleteAll_def map_replicate_const)

lemma length_concat_Rescale: "length (concat (Rescale d)) = length (concat d)"
  by (simp only: length_concat shape_Rescale)

lemma Rescale_nonempty: "concat d \<noteq> [] \<Longrightarrow> concat (Rescale d) \<noteq> []"
  using length_concat_Rescale [of d] by (metis length_0_conv)

lemma powr_third_root: "0 \<le> x \<Longrightarrow> x powr (1 / 3) = root 3 x"
proof (cases "x = 0")
  case True
  then show ?thesis by simp
next
  case False
  assume "0 \<le> x"
  with False have "0 < x" by simp
  then show ?thesis by (simp add: root_powr_inverse)
qed

lemma new_dx:
  "map_sum id dx (DistanceFunction_new env pmesh order c u) =
     map_sum id (\<lambda>dx0. dx0 / real_of_int order)
       (mesh_size (ElementBaseGeometry pmesh) (sum_list (concat (ElementVolumes pmesh)))
          (int (length (concat (ElementVolumes pmesh)))))"
  by (simp add: DistanceFunction_new_def Let_def glob_area_total glob_zones_total split: sum.splits)

lemma sample_after_first_simps:
  "pfes sample_after_first = sample_space" "use_amgx sample_after_first = False"
  "ess_tdof_list sample_after_first = [[], []]"
  "distance sample_after_first = [[0, 3 / 8], [3 / 8, 7 / 8]]"
  "source sample_after_first = [[1 / 4, 1 / 2], [1 / 2, 2]]"
  "diffused_source sample_after_first = [[1 / 8, 1 / 2], [1 / 2, 1]]"
  by (simp_all add: sample_after_first_def)

lemma sample_allocated: "allocated (sample_object amgx)"
  by (simp add: allocated_def sample_object_def sample_space_simps)

lemma diffused_is_average_at_call:
  assumes "snd (ComputeDistance env B this ls k t) = Inr this'"
      and "allocated this"
      and "snd (solve_system env B (pfes this) (use_amgx this)
                  (MassDiffusionForm (t_param this * dx this * dx this))
                  (DomainLF (source this')) (ess_tdof_list this)) = Inr u_D"
      and "snd (solve_system env B (pfes this) (use_amgx this)
                  (MassDiffusionForm (t_param this * dx this * dx this))
                  (DomainLF (source this')) (replicate (length (ess_tdof_list this)) [])) = Inr u_N"
  shows "diffused_source this' = average_outside u_D u_N"
proof -
  note ok = ComputeDistance_result(1) [OF assms(1)]
  let ?prec = "if use_amgx this then AmgXSolver else HypreBoomerAMG"
  let ?a = "MassDiffusionForm (t_param this * dx this * dx this)"
  have u_D: "u_D = GridFunction (pfes this)
      (LinearSolve env (pfes this) ?prec ?a (DomainLF (source this')) (ess_tdof_list this))"
    using assms(3) ok by (simp add: solve_system_eq)
  have u_N: "u_N = GridFunction (pfes this)
      (LinearSolve env (pfes this) ?prec ?a (DomainLF (source this')) (DeleteAll (ess_tdof_list this)))"
    using assms(4) ok by (simp add: solve_system_eq DeleteAll_replicate)
  have shape: "map length (diffused_source this) = GetVSize (pfes this)"
    using assms(2) by (simp add: allocated_def)
  have "diffused_source this' =
      map (\<lambda>r. average_loop 0 (diffused_source this ! r) (u_N ! r) (u_D ! r))
        [0..<length (diffused_source this)]"
    unfolding u_D u_N by (simp only: ComputeDistance_diffused [OF assms(1)] Let_def)
  also have "\<dots> = map2 (map2 (\<lambda>n d. 0.5 * (n + d))) u_N u_D"
    by (rule average_ranks [OF shape]) (simp_all only: u_D u_N shape_GridFunction)
  also have "\<dots> = average_outside u_D u_N"
    by (rule average_outside_flip)
  finally show ?thesis .
qed

lemma average_same: "map2 (map2 (\<lambda>n d. 0.5 * (n + d))) u u = (u :: real list list)"
proof (induction u)
  case Nil
  then show ?case by simp
next
  case (Cons x u)
  have "map2 (\<lambda>n d. 0.5 * (n + d)) x x = x"
    by (induction x) simp_all
  with Cons show ?case
    by (simp only: zip_Cons_Cons list.map prod.case)
qed

lemma DeleteAll_DeleteAll: "DeleteAll (DeleteAll l) = DeleteAll l"
  by (simp add: DeleteAll_def)

lemma PrepareSource_shape:
  "map length (snd (PrepareSource env fes ls k t)) = GetVSize fes"
  by (simp add: PrepareSource_eq Let_def comp_def)

lemma exact_library_simps:
  "H1_Space exact_library pmesh order = sample_space"
  "Uninitialized exact_library r i = 0"
  "ProjectCoefficient exact_library fes c = c"
  "LinearSolve exact_library = exact_solve"
  by (simp_all add: exact_library_def sample_library_def)

lemma exact_new:
  "DistanceFunction_new exact_library sample_mesh 1 1 amgx = Inr (sample_object amgx)"
  by (simp add: DistanceFunction_new_def exact_library_simps sample_mesh_def GridFunction_sample
      sample_object_def area_loop_sum MPI_Allreduce_SUM_sum_list GetGlobalNE_def
      sample_space_simps Let_def)

lemma exact_dirichlet:
  "cramer3 (P1_rows (1 / 4) [[0], [1]]) (P1_rhs [[1, 0], [0, 1]] [[0], [1]]) = (0, 1 / 8, 0)"
  by (simp add: P1_rows_def P1_rhs_def P1_load_def constrained_def Let_def)

lemma exact_neumann:
  "cramer3 (P1_rows (1 / 4) [[], []]) (P1_rhs [[1, 0], [0, 1]] [[], []]) = (7 / 13, 6 / 13, 7 / 13)"
  by (simp add: P1_rows_def P1_rhs_def P1_load_def constrained_def Let_def)

lemma exact_distance_first:
  "P1_distance [[7 / 26, 61 / 208], [61 / 208, 7 / 26]] = (1 / 6, - 1 / 3, 1 / 6)"
  by (simp add: P1_distance_def Let_def)

lemma exact_distance_second:
  "P1_distance [[7 / 13, 6 / 13], [6 / 13, 7 / 13]] = (- 1 / 6, 1 / 3, - 1 / 6)"
  by (simp add: P1_distance_def Let_def)

lemma exact_first:
  "ComputeDistance exact_library False (sample_object False) exact_level_set 0 False =
     ([FormLinearSystem (MassDiffusionForm (1 / 4)) [[0], [1]], CG_Mult HypreBoomerAMG,
       FormLinearSystem (MassDiffusionForm (1 / 4)) [[], []], CG_Mult HypreBoomerAMG,
       FormLinearSystem DiffusionForm [[], []], CG_Mult HypreBoomerAMG],
      Inr exact_after_first)"
  by (simp add: ComputeDistance_def PrepareSource_def Step1_diffuse_def Step2_distance_def
      solve_system_def GetPrecondtioner_def sample_object_def Let_def
      exact_library_simps GridFunction_sample exact_level_set_def DeleteAll_def
      no_dofs_def sample_space_simps upt_conv_Cons average_loop_map2
      exact_dirichlet exact_neumann exact_distance_first
      Rescale_def Vector_Min_def MPI_Allreduce_MIN_def exact_after_first_def)

lemma exact_second:
  "ComputeDistance exact_library False exact_after_first exact_level_set 0 False =
     ([FormLinearSystem (MassDiffusionForm (1 / 4)) [[], []], CG_Mult HypreBoomerAMG,
       FormLinearSystem (MassDiffusionForm (1 / 4)) [[], []], CG_Mult HypreBoomerAMG,
       FormLinearSystem DiffusionForm [[], []], CG_Mult HypreBoomerAMG],
      Inr exact_after_second)"
  by (simp add: ComputeDistance_def PrepareSource_def Step1_diffuse_def Step2_distance_def
      solve_system_def GetPrecondtioner_def exact_after_first_def Let_def
      exact_library_simps GridFunction_sample exact_level_set_def DeleteAll_def
      no_dofs_def sample_space_simps upt_conv_Cons average_loop_map2
      exact_neumann exact_distance_second
      Rescale_def Vector_Min_def MPI_Allreduce_MIN_def exact_after_second_def)

lemma cramer3_solves:
  assumes "det3 r0 r1 r2 \<noteq> 0"
  shows "dot3 r0 (cramer3 (r0, r1, r2) b) = fst b \<and>
         dot3 r1 (cramer3 (r0, r1, r2) b) = fst (snd b) \<and>
         dot3 r2 (cramer3 (r0, r1, r2) b) = snd (snd b)"
proof -
  obtain a1 a2 a3 where r0: "r0 = (a1, a2, a3)" by (cases r0)
  obtain b1 b2 b3 where r1: "r1 = (b1, b2, b3)" by (cases r1)
  obtain c1 c2 c3 where r2: "r2 = (c1, c2, c3)" by (cases r2)
  obtain x y z where b: "b = (x, y, z)" by (cases b)
  define D where "D = det3 r0 r1 r2"
  define Dx where "Dx = det3 (x, a2, a3) (y, b2, b3) (z, c2, c3)"
  define Dy where "Dy = det3 (a1, x, a3) (b1, y, b3) (c1, z, c3)"
  define Dz where "Dz = det3 (a1, a2, x) (b1, b2, y) (c1, c2, z)"
  have D: "D \<noteq> 0" using assms by (simp add: D_def)
  have sol: "cramer3 (r0, r1, r2) b = (Dx / D, Dy / D, Dz / D)"
    by (simp add: r0 r1 r2 b D_def Dx_def Dy_def Dz_def)
  have e0: "a1 * Dx + a2 * Dy + a3 * Dz = x * D"
    and e1: "b1 * Dx + b2 * Dy + b3 * Dz = y * D"
    and e2: "c1 * Dx + c2 * Dy + c3 * Dz = z * D"
    by (simp_all add: r0 r1 r2 D_def Dx_def Dy_def Dz_def algebra_simps)
  have div: "p * (Dx / D) + q * (Dy / D) + r * (Dz / D) = (p * Dx + q * Dy + r * Dz) / D" for p q r
    by (simp add: add_divide_distrib)
  have "dot3 r0 (cramer3 (r0, r1, r2) b) = (a1 * Dx + a2 * Dy + a3 * Dz) / D"
    unfolding sol unfolding r0 by (simp only: dot3.simps div)
  then have 0: "dot3 r0 (cramer3 (r0, r1, r2) b) = x"
    using D by (simp only: e0) simp
  have "dot3 r1 (cramer3 (r0, r1, r2) b) = (b1 * Dx + b2 * Dy + b3 * Dz) / D"
    unfolding sol unfolding r1 by (simp only: dot3.simps div)
  then have 1: "dot3 r1 (cramer3 (r0, r1, r2) b) = y"
    using D by (simp only: e1) simp
  have "dot3 r2 (cramer3 (r0, r1, r2) b) = (c1 * Dx + c2 * Dy + c3 * Dz) / D"
    unfolding sol unfolding r2 by (simp only: dot3.simps div)
  then have 2: "dot3 r2 (cramer3 (r0, r1, r2) b) = z"
    using D by (simp only: e2) simp
  show ?thesis
    using 0 1 2 by (simp only: b fst_conv snd_conv simp_thms)
qed

lemma exact_systems_regular:
  "det3 (fst (P1_rows (1 / 4) [[0], [1]])) (fst (snd (P1_rows (1 / 4) [[0], [1]])))
     (snd (snd (P1_rows (1 / 4) [[0], [1]]))) \<noteq> 0"
  "det3 (fst (P1_rows (1 / 4) [[], []])) (fst (snd (P1_rows (1 / 4) [[], []])))
     (snd (snd (P1_rows (1 / 4) [[], []]))) \<noteq> 0"
  by (simp_all add: P1_rows_def constrained_def Let_def)

lemma P1_distance_solves:
  assumes "P1_distance u = (d0, d1, d2)"
  shows "2 * (d0 - d1) = sgn (u ! 0 ! 1 - u ! 0 ! 0)"
    and "2 * (2 * d1 - d0 - d2) = sgn (u ! 1 ! 1 - u ! 1 ! 0) - sgn (u ! 0 ! 1 - u ! 0 ! 0)"
    and "2 * (d2 - d1) = - sgn (u ! 1 ! 1 - u ! 1 ! 0)"
    and "d0 + d1 + d2 = 0"
  using assms by (auto simp: P1_distance_def Let_def)

lemma exact_after_simps:
  "distance exact_after_first = [[1 / 2, 0], [0, 1 / 2]]"
  "distance exact_after_second = [[0, 1 / 2], [1 / 2, 0]]"
  "diffused_source exact_after_first = [[7 / 26, 61 / 208], [61 / 208, 7 / 26]]"
  "diffused_source exact_after_second = [[7 / 13, 6 / 13], [6 / 13, 7 / 13]]"
  "source exact_after_second = [[1, 0], [0, 1]]"
  by (simp_all add: exact_after_first_def exact_after_second_def)

lemma exact_solves:
  "snd (solve_system exact_library False sample_space False (MassDiffusionForm (1 / 4))
          (DomainLF [[1, 0], [0, 1]]) [[0], [1]]) = Inr [[0, 1 / 8], [1 / 8, 0]]"
  "snd (solve_system exact_library False sample_space False (MassDiffusionForm (1 / 4))
          (DomainLF [[1, 0], [0, 1]]) [[], []]) = Inr [[7 / 13, 6 / 13], [6 / 13, 7 / 13]]"
  by (simp_all add: solve_system_eq GridFunction_sample exact_library_simps exact_dirichlet
      exact_neumann)

section \<open>The claims\<close>

text \<open>
  Claim C1 fails on the code: \<open>ComputeDistance\<close> empties the member \<open>ess_tdof_list\<close>
  (\<open>DeleteAll\<close>, before the Neumann system is formed) and never restores it. After any
  call that returns, the list of the object is empty on every rank, and every later call
  forms its first ("Dirichlet") system with the empty constraint set as well.
\<close>
theorem C1_essential_dofs_deleted_by_call:
  assumes "snd (ComputeDistance env B this ls k t) = Inr this'"
  shows "ess_tdof_list this' = replicate (length (ess_tdof_list this)) [] \<and>
         fst (ComputeDistance env B this' ls2 k2 t2) =
           (if k2 > 0 then [Smoother_Mult k2] else []) @
           [FormLinearSystem (MassDiffusionForm (t_param this * dx this * dx this))
              (replicate (length (ess_tdof_list this)) []),
            CG_Mult (if use_amgx this then AmgXSolver else HypreBoomerAMG),
            FormLinearSystem (MassDiffusionForm (t_param this * dx this * dx this))
              (replicate (length (ess_tdof_list this)) []),
            CG_Mult (if use_amgx this then AmgXSolver else HypreBoomerAMG),
            FormLinearSystem DiffusionForm (no_dofs (pfes this)),
            CG_Mult (if use_amgx this then AmgXSolver else HypreBoomerAMG)]"
proof -
  note f = ComputeDistance_fields [OF assms]
  have ok: "\<not> (use_amgx this' \<and> \<not> B)"
    using ComputeDistance_result(1) [OF assms] by (simp add: f)
  have "fst (ComputeDistance env B this' ls2 k2 t2) =
           (if k2 > 0 then [Smoother_Mult k2] else []) @
           [FormLinearSystem (MassDiffusionForm (t_param this' * dx this' * dx this')) (ess_tdof_list this'),
            CG_Mult (if use_amgx this' then AmgXSolver else HypreBoomerAMG),
            FormLinearSystem (MassDiffusionForm (t_param this' * dx this' * dx this')) (DeleteAll (ess_tdof_list this')),
            CG_Mult (if use_amgx this' then AmgXSolver else HypreBoomerAMG),
            FormLinearSystem DiffusionForm (no_dofs (pfes this')),
            CG_Mult (if use_amgx this' then AmgXSolver else HypreBoomerAMG)]"
    by (subst ComputeDistance_ok [OF ok]) (simp only: Let_def fst_conv)
  then show ?thesis
    by (simp add: f DeleteAll_replicate)
qed

theorem C1_essential_dofs_deleted_by_call_witness:
  "snd (ComputeDistance sample_library False (sample_object False) sample_level_set 0 False)
     = Inr sample_after_first \<and>
   ess_tdof_list (sample_object False) = [[0], [1]] \<and>
   ess_tdof_list sample_after_first = [[], []] \<and>
   fst (ComputeDistance sample_library False sample_after_first sample_level_set 0 False) =
     [FormLinearSystem (MassDiffusionForm (1 / 4)) [[], []], CG_Mult HypreBoomerAMG,
      FormLinearSystem (MassDiffusionForm (1 / 4)) [[], []], CG_Mult HypreBoomerAMG,
      FormLinearSystem DiffusionForm [[], []], CG_Mult HypreBoomerAMG]"
  using C1_essential_dofs_deleted_by_call [of sample_library False "sample_object False"
      sample_level_set 0 False sample_after_first sample_level_set 0 False]
  by (simp add: sample_first sample_second sample_object_simps sample_after_first_simps)

text \<open>
  Claim C2 fails on the code, by the defect of claim C1. Of two calls in a row with the
  same level set, step count and flag, the first averages the solution \<open>u_D\<close> of the
  system constrained on the essential dofs with the unconstrained solution \<open>u_N\<close>; the
  second finds the list of essential dofs empty, forms both systems without constraints and
  leaves \<open>u_N\<close> itself as diffused field. The distance the first call returns is solved
  from the average, the distance the second call returns from \<open>u_N\<close>; on the sample mesh
  with the level set of nodal values 1, 0, 1 and the exact solutions the two calls return
  different distance fields.
\<close>
theorem C2_second_call_unconstrained:
  assumes "snd (ComputeDistance env B this ls k t) = Inr this1"
      and "snd (ComputeDistance env B this1 ls k t) = Inr this2"
      and "allocated this"
  shows "source this2 = source this1 \<and>
         (let fes = pfes this;
              prec = (if use_amgx this then AmgXSolver else HypreBoomerAMG);
              a = MassDiffusionForm (t_param this * dx this * dx this);
              b = DomainLF (source this1);
              u_D = GridFunction fes (LinearSolve env fes prec a b (ess_tdof_list this));
              u_N = GridFunction fes
                      (LinearSolve env fes prec a b (replicate (length (ess_tdof_list this)) []))
          in diffused_source this1 = average_outside u_D u_N \<and>
             diffused_source this2 = u_N \<and>
             distance this1 =
               Rescale (GridFunction fes (LinearSolve env fes prec DiffusionForm
                  (DomainLFGrad (average_outside u_D u_N)) (no_dofs fes))) \<and>
             distance this2 =
               Rescale (GridFunction fes (LinearSolve env fes prec DiffusionForm
                  (DomainLFGrad u_N) (no_dofs fes))) \<and>
             fst (ComputeDistance env B this ls k t) =
               (if k > 0 then [Smoother_Mult k] else []) @
               [FormLinearSystem a (ess_tdof_list this), CG_Mult prec,
                FormLinearSystem a (replicate (length (ess_tdof_list this)) []), CG_Mult prec,
                FormLinearSystem DiffusionForm (no_dofs fes), CG_Mult prec] \<and>
             fst (ComputeDistance env B this1 ls k t) =
               (if k > 0 then [Smoother_Mult k] else []) @
               [FormLinearSystem a (replicate (length (ess_tdof_list this)) []), CG_Mult prec,
                FormLinearSystem a (replicate (length (ess_tdof_list this)) []), CG_Mult prec,
                FormLinearSystem DiffusionForm (no_dofs fes), CG_Mult prec])"
proof -
  let ?fes = "pfes this"
  let ?prec = "if use_amgx this then AmgXSolver else HypreBoomerAMG"
  let ?a = "MassDiffusionForm (t_param this * dx this * dx this)"
  let ?b = "DomainLF (source this1)"
  let ?none = "replicate (length (ess_tdof_list this)) []"
  let ?u_D = "GridFunction ?fes (LinearSolve env ?fes ?prec ?a ?b (ess_tdof_list this))"
  let ?u_N = "GridFunction ?fes (LinearSolve env ?fes ?prec ?a ?b ?none)"
  note f1 = ComputeDistance_fields [OF assms(1)]
  note f2 = ComputeDistance_fields [OF assms(2)]
  have src: "source this2 = source this1"
    by (simp add: f1 f2)
  have a1: "allocated this1"
    by (rule ComputeDistance_allocated [OF assms(1,3)])
  have shape: "map length (diffused_source this) = GetVSize ?fes"
    using assms(3) by (simp add: allocated_def)
  have shape1: "map length (diffused_source this1) = GetVSize ?fes"
    using a1 by (simp add: allocated_def f1)
  have "diffused_source this1 =
      map (\<lambda>r. average_loop 0 (diffused_source this ! r) (?u_N ! r) (?u_D ! r))
        [0..<length (diffused_source this)]"
    by (simp only: ComputeDistance_diffused [OF assms(1)] Let_def DeleteAll_replicate)
  also have "\<dots> = map2 (map2 (\<lambda>n d. 0.5 * (n + d))) ?u_N ?u_D"
    by (rule average_ranks [OF shape]) (simp_all only: shape_GridFunction)
  also have "\<dots> = average_outside ?u_D ?u_N"
    by (rule average_outside_flip)
  finally have d1: "diffused_source this1 = average_outside ?u_D ?u_N" .
  have "diffused_source this2 =
      map (\<lambda>r. average_loop 0 (diffused_source this1 ! r) (?u_N ! r) (?u_N ! r))
        [0..<length (diffused_source this1)]"
    by (simp add: ComputeDistance_diffused [OF assms(2)] Let_def f1 src DeleteAll_replicate)
  also have "\<dots> = map2 (map2 (\<lambda>n d. 0.5 * (n + d))) ?u_N ?u_N"
    by (rule average_ranks [OF shape1]) (simp_all only: shape_GridFunction)
  also have "\<dots> = ?u_N"
    by (rule average_same)
  finally have d2: "diffused_source this2 = ?u_N" .
  have t1: "fst (ComputeDistance env B this ls k t) =
               (if k > 0 then [Smoother_Mult k] else []) @
               [FormLinearSystem ?a (ess_tdof_list this), CG_Mult ?prec,
                FormLinearSystem ?a ?none, CG_Mult ?prec,
                FormLinearSystem DiffusionForm (no_dofs ?fes), CG_Mult ?prec]"
    by (simp add: ComputeDistance_result(2) [OF assms(1)] DeleteAll_replicate)
  have t2: "fst (ComputeDistance env B this1 ls k t) =
               (if k > 0 then [Smoother_Mult k] else []) @
               [FormLinearSystem ?a ?none, CG_Mult ?prec,
                FormLinearSystem ?a ?none, CG_Mult ?prec,
                FormLinearSystem DiffusionForm (no_dofs ?fes), CG_Mult ?prec]"
    by (simp add: ComputeDistance_result(2) [OF assms(2)] f1 DeleteAll_replicate)
  have e1: "distance this1 =
      Rescale (GridFunction ?fes (LinearSolve env ?fes ?prec DiffusionForm
         (DomainLFGrad (average_outside ?u_D ?u_N)) (no_dofs ?fes)))"
    by (simp only: ComputeDistance_distance [OF assms(1)] d1)
  have e2: "distance this2 =
      Rescale (GridFunction ?fes (LinearSolve env ?fes ?prec DiffusionForm
         (DomainLFGrad ?u_N) (no_dofs ?fes)))"
    using ComputeDistance_distance [OF assms(2)] by (simp only: d2 f1)
  show ?thesis
    unfolding Let_def using src d1 d2 e1 e2 t1 t2 by blast
qed

theorem C2_second_call_differs:
  "DistanceFunction_new exact_library sample_mesh 1 1 False = Inr (sample_object False) \<and>
   snd (ComputeDistance exact_library False (sample_object False) exact_level_set 0 False)
     = Inr exact_after_first \<and>
   snd (ComputeDistance exact_library False exact_after_first exact_level_set 0 False)
     = Inr exact_after_second \<and>
   allocated (sample_object False) \<and>
   distance exact_after_first = [[1 / 2, 0], [0, 1 / 2]] \<and>
   distance exact_after_second = [[0, 1 / 2], [1 / 2, 0]] \<and>
   distance exact_after_second \<noteq> distance exact_after_first"
  using C2_second_call_unconstrained [of exact_library False "sample_object False"
      exact_level_set 0 False exact_after_first exact_after_second]
  by (simp add: exact_new exact_first exact_second sample_allocated exact_after_simps)

text \<open>
  Claim C3 as stated fails on the code: an object that requests the AMGX preconditioner
  is constructed without error in a build without AMGX, and the abort comes in
  \<open>ComputeDistance\<close>.
\<close>
theorem C3_amgx_error_not_at_construction:
  "DistanceFunction_new sample_library sample_mesh 1 1 True = Inr (sample_object True) \<and>
   use_amgx (sample_object True) \<and>
   ComputeDistance sample_library False (sample_object True) sample_level_set 0 False =
     ([FormLinearSystem (MassDiffusionForm (1 / 4)) [[0], [1]]],
      Inl (Abort ''AMGX not enabled \<newline>''))"
  by (simp add: sample_new ComputeDistance_abort sample_object_simps)

text \<open>
  Claim C3, amended. Both configuration errors are aborts with a diagnostic. The
  constructor aborts exactly when the base geometry is none of the five supported ones,
  and this is its only error. \<open>ComputeDistance\<close> aborts exactly when the object requests
  AMGX and the build has none, and this is its only error; the abort comes when the first
  preconditioner is requested: after the source preparation (with the smoother run, for a
  positive step count) and the formation of the first linear system, and before any
  conjugate-gradient solve.
\<close>
theorem C3_configuration_errors:
  "(DistanceFunction_new env pmesh order diff_coeff amgx = Inl e \<longleftrightarrow>
      (\<exists>g. ElementBaseGeometry pmesh = OtherGeometry g) \<and> e = Abort ''Unknown zone type!'') \<and>
   (snd (ComputeDistance env B this ls k t) = Inl e' \<longleftrightarrow>
      use_amgx this \<and> \<not> B \<and> e' = Abort ''AMGX not enabled \<newline>'') \<and>
   (use_amgx this \<and> \<not> B \<longrightarrow>
      fst (ComputeDistance env B this ls k t) =
        (if k > 0 then [Smoother_Mult k] else []) @
        [FormLinearSystem (MassDiffusionForm (t_param this * dx this * dx this))
           (ess_tdof_list this)])"
proof -
  have new: "DistanceFunction_new env pmesh order diff_coeff amgx = Inl e \<longleftrightarrow>
      (\<exists>g. ElementBaseGeometry pmesh = OtherGeometry g) \<and> e = Abort ''Unknown zone type!''"
    unfolding DistanceFunction_new_def Let_def
    by (cases "ElementBaseGeometry pmesh") auto
  have call: "snd (ComputeDistance env B this ls k t) = Inl e' \<longleftrightarrow>
      use_amgx this \<and> \<not> B \<and> e' = Abort ''AMGX not enabled \<newline>''"
  proof (cases "use_amgx this \<and> \<not> B")
    case True
    then show ?thesis by (auto simp: ComputeDistance_abort)
  next
    case False
    then show ?thesis by (simp add: ComputeDistance_ok [OF False] Let_def)
  qed
  have tr: "use_amgx this \<and> \<not> B \<longrightarrow>
      fst (ComputeDistance env B this ls k t) =
        (if k > 0 then [Smoother_Mult k] else []) @
        [FormLinearSystem (MassDiffusionForm (t_param this * dx this * dx this))
           (ess_tdof_list this)]"
    by (simp add: ComputeDistance_abort)
  from new call tr show ?thesis by blast
qed

theorem C3_configuration_errors_witness:
  "ElementBaseGeometry (sample_mesh\<lparr>ElementBaseGeometry := OtherGeometry 6\<rparr>) = OtherGeometry 6 \<and>
   DistanceFunction_new sample_library (sample_mesh\<lparr>ElementBaseGeometry := OtherGeometry 6\<rparr>)
     1 1 False = Inl (Abort ''Unknown zone type!'') \<and>
   use_amgx (sample_object True) \<and> \<not> False \<and>
   ComputeDistance sample_library False (sample_object True) sample_level_set 3 True =
     ([Smoother_Mult 3, FormLinearSystem (MassDiffusionForm (1 / 4)) [[0], [1]]],
      Inl (Abort ''AMGX not enabled \<newline>''))"
  using C3_configuration_errors [of sample_library
      "sample_mesh\<lparr>ElementBaseGeometry := OtherGeometry 6\<rparr>" 1 1 False
      "Abort ''Unknown zone type!''" False "sample_object True" sample_level_set 3 True
      "Abort ''AMGX not enabled \<newline>''"]
  by (simp add: sample_abort sample_object_simps)

text \<open>
  Claim C4. When \<open>ComputeDistance\<close> returns on a space with at least one node, the minimum
  of the returned distance field over all ranks is 0 and no value is negative. The field
  is the solution of the second system minus one number on every rank: the result of the
  single \<open>MPI_MIN\<close> reduction of the local minima, which is the global minimum of that
  solution.
\<close>
theorem C4_distance_minimum_zero:
  assumes "snd (ComputeDistance env B this ls k t) = Inr this'"
      and "0 < sum_list (GetVSize (pfes this))"
  shows "global_min (all_values (distance this')) = Some 0 \<and>
         (\<forall>x \<in> set (all_values (distance this')). 0 \<le> x) \<and>
         (let d = GridFunction (pfes this)
                    (LinearSolve env (pfes this) (if use_amgx this then AmgXSolver else HypreBoomerAMG)
                       DiffusionForm (DomainLFGrad (diffused_source this')) (no_dofs (pfes this)))
          in \<exists>m. MPI_Allreduce_MIN (map Vector_Min d) = Some m \<and>
                 global_min (all_values d) = Some m \<and>
                 distance this' = map (map (\<lambda>x. x - m)) d)"
proof -
  let ?d = "GridFunction (pfes this)
              (LinearSolve env (pfes this) (if use_amgx this then AmgXSolver else HypreBoomerAMG)
                 DiffusionForm (DomainLFGrad (diffused_source this')) (no_dofs (pfes this)))"
  have dist: "distance this' = Rescale ?d"
    by (rule ComputeDistance_distance [OF assms(1)])
  have "length (concat ?d) = sum_list (GetVSize (pfes this))"
    by (simp only: length_concat shape_GridFunction)
  with assms(2) have ne: "concat ?d \<noteq> []"
    by (metis length_0_conv less_numeral_extra(3))
  then have ne': "concat (Rescale ?d) \<noteq> []"
    by (rule Rescale_nonempty)
  have 1: "global_min (all_values (distance this')) = Some 0"
    using ne' Rescale_min_zero(1) [OF ne] by (simp add: dist global_min_def all_values_def)
  have 2: "\<forall>x \<in> set (all_values (distance this')). 0 \<le> x"
    using Rescale_min_zero(2) [OF ne] by (simp only: dist all_values_def)
  have 3: "MPI_Allreduce_MIN (map Vector_Min ?d) = Some (Min (set (concat ?d)))"
    "global_min (all_values ?d) = Some (Min (set (concat ?d)))"
    using ne by (simp_all only: MPI_Allreduce_MIN_global global_min_def all_values_def if_False)
  have 4: "distance this' = map (map (\<lambda>x. x - Min (set (concat ?d)))) ?d"
    using Rescale_eq [OF ne] by (simp only: dist)
  show ?thesis
    unfolding Let_def using 1 2 3 4 by blast
qed

theorem C4_distance_minimum_zero_witness:
  "snd (ComputeDistance sample_library False (sample_object False) sample_level_set 0 False)
     = Inr sample_after_first \<and>
   0 < sum_list (GetVSize (pfes (sample_object False))) \<and>
   distance sample_after_first = [[0, 3 / 8], [3 / 8, 7 / 8]] \<and>
   global_min (all_values (distance sample_after_first)) = Some 0"
  using C4_distance_minimum_zero [of sample_library False "sample_object False" sample_level_set 0
      False sample_after_first]
  by (simp add: sample_first sample_object_simps sample_space_simps sample_after_first_def)

text \<open>
  Claim C5. On a mesh with at least one cell, a non-negative total measure \<open>M\<close> (summed
  over the cells of all ranks) and a positive order, the constructor sets \<open>dx\<close> to
  \<open>M / N\<close> for segments, \<open>sqrt (M / N)\<close> for quadrilaterals, \<open>sqrt (2 M / N)\<close> for
  triangles, the cube root of \<open>M / N\<close> for hexahedra and of \<open>6 M / N\<close> for tetrahedra,
  each divided by the order, where \<open>N\<close> is the number of cells of all ranks; for any other
  base geometry it aborts.
\<close>
theorem C5_mesh_scale:
  assumes "0 < length (concat (ElementVolumes pmesh))"
      and "0 \<le> sum_list (concat (ElementVolumes pmesh))"
      and "0 < order"
  shows "map_sum id dx (DistanceFunction_new env pmesh order diff_coeff amgx) =
     (let M = sum_list (concat (ElementVolumes pmesh));
          N = real (length (concat (ElementVolumes pmesh)))
      in case ElementBaseGeometry pmesh of
           SEGMENT \<Rightarrow> Inr (M / N / real_of_int order)
         | SQUARE \<Rightarrow> Inr (sqrt (M / N) / real_of_int order)
         | TRIANGLE \<Rightarrow> Inr (sqrt (2 * M / N) / real_of_int order)
         | CUBE \<Rightarrow> Inr (root 3 (M / N) / real_of_int order)
         | TETRAHEDRON \<Rightarrow> Inr (root 3 (6 * M / N) / real_of_int order)
         | OtherGeometry g \<Rightarrow> Inl (Abort ''Unknown zone type!''))"
proof -
  let ?M = "sum_list (concat (ElementVolumes pmesh))"
  let ?N = "real (length (concat (ElementVolumes pmesh)))"
  have "0 \<le> ?M / ?N" "0 \<le> 6 * ?M / ?N"
    using assms by simp_all
  then have "(?M / ?N) powr (1 / 3) = root 3 (?M / ?N)"
    "(6 * ?M / ?N) powr (1 / 3) = root 3 (6 * ?M / ?N)"
    by (simp_all only: powr_third_root)
  then show ?thesis
    unfolding new_dx Let_def
    by (cases "ElementBaseGeometry pmesh") simp_all
qed

theorem C5_mesh_scale_witness:
  "0 < length (concat (ElementVolumes sample_mesh)) \<and>
   0 \<le> sum_list (concat (ElementVolumes sample_mesh)) \<and> (0::int) < 1 \<and>
   sum_list (concat (ElementVolumes sample_mesh)) = 1 \<and>
   length (concat (ElementVolumes sample_mesh)) = 2 \<and>
   map_sum id dx (DistanceFunction_new sample_library sample_mesh 1 1 False) = Inr (1 / 2)"
  using C5_mesh_scale [of sample_mesh 1 sample_library 1 False]
  by (simp add: sample_mesh_def)

text \<open>
  Claim C6. When \<open>ComputeDistance\<close> is called with the transform flag set and returns,
  the source field of the object is the projected (and, for a positive step count,
  smoothed) field with every nodal value \<open>x\<close> replaced by 0 if \<open>x < 0\<close> or \<open>x > 1\<close>
  and by \<open>4 x (1 - x)\<close> otherwise. The transform itself has no failing branch.
\<close>
theorem C6_peak_transform_applied:
  "snd (ComputeDistance env B this ls k True) = Inr this' \<Longrightarrow>
   source this' =
     map (map (\<lambda>x. if x < 0 \<or> x > 1 then 0 else 4 * x * (1 - x)))
       (snd (PrepareSource env (pfes this) ls k False))"
  by (simp add: ComputeDistance_fields PrepareSource_eq Let_def peak_def [abs_def])

theorem C6_peak_transform_applied_witness:
  "snd (ComputeDistance sample_library False (sample_object False) sample_level_set 0 True)
     = Inr sample_after_transform \<and>
   snd (PrepareSource sample_library sample_space sample_level_set 0 False)
     = [[1 / 4, 1 / 2], [1 / 2, 2]] \<and>
   source sample_after_transform = [[3 / 4, 1], [1, 0]]"
  using C6_peak_transform_applied [of sample_library False "sample_object False" sample_level_set 0
      sample_after_transform]
  by (simp add: sample_transform sample_after_transform_def PrepareSource_eq GridFunction_sample
      sample_library_simps sample_level_set_def)

text \<open>
  Claim C7. The peak transform maps every value into \<open>[0, 1]\<close>: its result is never
  negative and never above 1, a value outside \<open>[0, 1]\<close> is mapped to exactly 0, and
  so the transform of a transformed value, and of a transformed field, stays in \<open>[0, 1]\<close>.
\<close>
theorem C7_peak_range:
  "0 \<le> peak x \<and> peak x \<le> 1 \<and> ((x < 0 \<or> 1 < x) \<longrightarrow> peak x = 0) \<and>
   0 \<le> peak (peak x) \<and> peak (peak x) \<le> 1 \<and>
   (\<forall>y \<in> set (transform_loop 0 (transform_loop 0 v)). 0 \<le> y \<and> y \<le> 1)"
proof -
  have "(x < 0 \<or> 1 < x) \<longrightarrow> peak x = 0"
    by (simp add: peak_def)
  moreover have "\<forall>y \<in> set (transform_loop 0 (transform_loop 0 v)). 0 \<le> y \<and> y \<le> 1"
    by (auto simp: transform_loop_map peak_bounds)
  ultimately show ?thesis
    by (simp add: peak_bounds)
qed

theorem C7_peak_range_witness:
  "((2::real) < 0 \<or> 1 < (2::real)) \<and> peak 2 = 0 \<and> peak (peak 2) = 0 \<and>
   transform_loop 0 (transform_loop 0 [2, 1 / 4]) = [0, 3 / 4] \<and>
   (0::real) \<le> 3 / 4 \<and> (3 / 4 :: real) \<le> 1"
  using C7_peak_range [of 2 "[2, 1 / 4]"]
  by (simp add: transform_loop_map peak_def)

text \<open>
  Claim C8 fails on the code, by the defect of claim C1. On an object that has served an
  earlier call the list of essential dofs is empty, both diffusion systems of a call are
  then formed without constraints, and the diffused field the call stores is the
  unconstrained solution \<open>u_N\<close> itself; it is the average of the Dirichlet and the Neumann
  solution only where constraining the boundary does not change the solution. (On the
  first call of an object the stored field is the average.)
\<close>
theorem C8_diffused_after_earlier_call:
  assumes "snd (ComputeDistance env B this ls0 k0 t0) = Inr this1"
      and "snd (ComputeDistance env B this1 ls k t) = Inr this2"
      and "allocated this"
  shows "diffused_source this2 =
           GridFunction (pfes this)
             (LinearSolve env (pfes this) (if use_amgx this then AmgXSolver else HypreBoomerAMG)
                (MassDiffusionForm (t_param this * dx this * dx this)) (DomainLF (source this2))
                (replicate (length (ess_tdof_list this)) []))"
proof -
  let ?u_N = "GridFunction (pfes this)
             (LinearSolve env (pfes this) (if use_amgx this then AmgXSolver else HypreBoomerAMG)
                (MassDiffusionForm (t_param this * dx this * dx this)) (DomainLF (source this2))
                (replicate (length (ess_tdof_list this)) []))"
  note f1 = ComputeDistance_fields [OF assms(1)]
  have "allocated this1"
    by (rule ComputeDistance_allocated [OF assms(1,3)])
  then have shape1: "map length (diffused_source this1) = GetVSize (pfes this)"
    by (simp add: allocated_def f1)
  have "diffused_source this2 =
      map (\<lambda>r. average_loop 0 (diffused_source this1 ! r) (?u_N ! r) (?u_N ! r))
        [0..<length (diffused_source this1)]"
    by (simp add: ComputeDistance_diffused [OF assms(2)] Let_def f1 DeleteAll_replicate)
  also have "\<dots> = map2 (map2 (\<lambda>n d. 0.5 * (n + d))) ?u_N ?u_N"
    by (rule average_ranks [OF shape1]) (simp_all only: shape_GridFunction)
  also have "\<dots> = ?u_N"
    by (rule average_same)
  finally show ?thesis .
qed

theorem C8_second_call_not_average:
  "snd (ComputeDistance exact_library False (sample_object False) exact_level_set 0 False)
     = Inr exact_after_first \<and>
   snd (ComputeDistance exact_library False exact_after_first exact_level_set 0 False)
     = Inr exact_after_second \<and>
   allocated (sample_object False) \<and>
   ess_tdof_list (sample_object False) = [[0], [1]] \<and>
   snd (solve_system exact_library False sample_space False (MassDiffusionForm (1 / 4))
          (DomainLF [[1, 0], [0, 1]]) [[0], [1]]) = Inr [[0, 1 / 8], [1 / 8, 0]] \<and>
   snd (solve_system exact_library False sample_space False (MassDiffusionForm (1 / 4))
          (DomainLF [[1, 0], [0, 1]]) [[], []]) = Inr [[7 / 13, 6 / 13], [6 / 13, 7 / 13]] \<and>
   average_outside [[0, 1 / 8], [1 / 8, 0]] [[7 / 13, 6 / 13], [6 / 13, 7 / 13]]
     = [[7 / 26, 61 / 208], [61 / 208, 7 / 26]] \<and>
   diffused_source exact_after_first = [[7 / 26, 61 / 208], [61 / 208, 7 / 26]] \<and>
   diffused_source exact_after_second = [[7 / 13, 6 / 13], [6 / 13, 7 / 13]] \<and>
   diffused_source exact_after_second
     \<noteq> average_outside [[0, 1 / 8], [1 / 8, 0]] [[7 / 13, 6 / 13], [6 / 13, 7 / 13]]"
  using C8_diffused_after_earlier_call [of exact_library False "sample_object False"
      exact_level_set 0 False exact_after_first exact_level_set 0 False exact_after_second]
  by (simp add: exact_first exact_second sample_allocated sample_object_simps exact_after_simps
      exact_solves average_outside_def GridFunction_sample exact_library_simps exact_neumann)

text \<open>
  Claim C9. A call with \<open>smooth_steps = 0\<close> never runs the smoother, and the source
  field it leaves is the projection of the level set itself (with the peak transform
  applied to it when the flag is set).
\<close>
theorem C9_zero_steps_skip_smoothing:
  "snd (ComputeDistance env B this ls 0 t) = Inr this' \<Longrightarrow>
   source this' =
     (if t then map (map peak) (GridFunction (pfes this) (ProjectCoefficient env (pfes this) ls))
      else GridFunction (pfes this) (ProjectCoefficient env (pfes this) ls)) \<and>
   (\<forall>n. Smoother_Mult n \<notin> set (fst (ComputeDistance env B this ls 0 t)))"
  by (simp add: ComputeDistance_fields ComputeDistance_result(2) PrepareSource_eq Let_def)

theorem C9_zero_steps_skip_smoothing_witness:
  "snd (ComputeDistance sample_library False (sample_object False) sample_level_set 0 False)
     = Inr sample_after_first \<and>
   source sample_after_first = [[1 / 4, 1 / 2], [1 / 2, 2]] \<and>
   GridFunction sample_space (ProjectCoefficient sample_library sample_space sample_level_set)
     = [[1 / 4, 1 / 2], [1 / 2, 2]] \<and>
   (\<forall>n. Smoother_Mult n \<notin>
      set (fst (ComputeDistance sample_library False (sample_object False) sample_level_set 0 False)))"
  using C9_zero_steps_skip_smoothing [of sample_library False "sample_object False" sample_level_set
      False sample_after_first]
  by (simp add: sample_first sample_after_first_def GridFunction_sample
      sample_library_simps sample_level_set_def sample_object_simps)

text \<open>
  Claim C10. A call with a negative \<open>smooth_steps\<close> does what the call with
  \<open>smooth_steps = 0\<close> does: the same library calls, the same resulting object or
  abort. The sign of the argument is not checked, and when the preconditioner is available
  the call returns normally.
\<close>
theorem C10_negative_steps_as_zero:
  "k < 0 \<Longrightarrow>
   ComputeDistance env B this ls k t = ComputeDistance env B this ls 0 t \<and>
   PrepareSource env (pfes this) ls k t = PrepareSource env (pfes this) ls 0 t \<and>
   ((use_amgx this \<longrightarrow> B) \<longrightarrow> (\<exists>this'. snd (ComputeDistance env B this ls k t) = Inr this'))"
proof -
  assume k: "k < 0"
  then have p: "PrepareSource env (pfes this) ls k t = PrepareSource env (pfes this) ls 0 t"
    by (simp add: PrepareSource_def)
  then have "ComputeDistance env B this ls k t = ComputeDistance env B this ls 0 t"
    by (simp only: ComputeDistance_def)
  moreover have "(use_amgx this \<longrightarrow> B) \<longrightarrow> (\<exists>this'. snd (ComputeDistance env B this ls k t) = Inr this')"
    by (simp only: ComputeDistance_Inr_iff) simp
  ultimately show ?thesis
    using p by simp
qed

theorem C10_negative_steps_as_zero_witness:
  "(-3 :: int) < 0 \<and>
   ComputeDistance sample_library False (sample_object False) sample_level_set (-3) False =
   ComputeDistance sample_library False (sample_object False) sample_level_set 0 False \<and>
   snd (ComputeDistance sample_library False (sample_object False) sample_level_set (-3) False)
     = Inr sample_after_first"
  using C10_negative_steps_as_zero [of "-3" sample_library False "sample_object False" sample_level_set False]
  by (simp add: sample_first)

end
